theory Spec2Isabelle
  imports Main "HOL-Library.AList"
begin

section \<open>Paris Dental content API: seeding routine and request handlers\<close>

text \<open>
  The development follows \<^verbatim>\<open>main.py\<close> and \<^verbatim>\<open>schemas.py\<close>. Python dictionaries are
  association lists (insertion order kept, \<^const>\<open>AList.update\<close> for \<^verbatim>\<open>d[k] = v\<close>,
  \<^const>\<open>AList.delete\<close> for \<^verbatim>\<open>d.pop(k, None)\<close>). An exception is a value of type
  \<open>error\<close>; every function that touches the database takes the process-wide handle
  \<^verbatim>\<open>db\<close> and returns it updated, also when it raises.
  Text is a \<open>string\<close>, one \<open>char\<close> per character of a message; the four non-ASCII
  symbols of the source's literals are written as their UTF-8 bytes.
\<close>

subsection \<open>Values and documents\<close>

datatype val =
    VNone
  | VBool bool
  | VInt int
  | VStr string
  | VList "val list"
  | VDatetime nat
  | VObjectId nat

type_synonym document = "(string \<times> val) list"

datatype error = Exception string

definition check_mark :: string where
  "check_mark = [CHR 0xE2, CHR 0x9C, CHR 0x85]"

definition cross_mark :: string where
  "cross_mark = [CHR 0xE2, CHR 0x9D, CHR 0x8C]"

definition warning_sign :: string where
  "warning_sign = [CHR 0xE2, CHR 0x9A, CHR 0xA0, CHR 0xEF, CHR 0xB8, CHR 0x8F]"

definition en_dash :: string where
  "en_dash = [CHR 0xE2, CHR 0x80, CHR 0x93]"

text \<open>Python truthiness of an optional string: \<^verbatim>\<open>None\<close> and \<^verbatim>\<open>""\<close> are false.\<close>

fun truthy_str :: "string option \<Rightarrow> bool" where
  "truthy_str None = False"
| "truthy_str (Some s) = (s \<noteq> [])"

text \<open>Truthiness of what \<^verbatim>\<open>find_one\<close> returns: \<^verbatim>\<open>None\<close> and the empty dict are false.\<close>

fun truthy_doc :: "document option \<Rightarrow> bool" where
  "truthy_doc None = False"
| "truthy_doc (Some d) = (d \<noteq> [])"

subsection \<open>The document database\<close>

text \<open>
  Modelled from the spec: \<^verbatim>\<open>database.py\<close> (\<^verbatim>\<open>db\<close>, \<^verbatim>\<open>create_document\<close>,
  \<^verbatim>\<open>get_documents\<close>) and the database driver behind it are not among the source files.
  The spec requires of the database the operations insert-one, count, find-with-filter and
  list-collection-names, on named collections of flat documents that carry a
  database-generated identifier \<^verbatim>\<open>_id\<close>; any operation may fail with an error message.

  A database is its collections in creation order, the counter the identifiers are drawn
  from, and \<open>faults\<close>: the outcomes the server gives to the coming operations, one per
  operation, \<open>Some msg\<close> for an operation that raises with message \<open>msg\<close>. Operations
  beyond the end of the list succeed. A raising operation changes no collection.
\<close>

record database =
  colls :: "(string \<times> document list) list"
  next_oid :: nat
  faults :: "string option list"

type_synonym handle = "database option"

type_synonym 'a io = "handle \<Rightarrow> (error + 'a) \<times> handle"

definition return_io :: "'a \<Rightarrow> 'a io" where
  "return_io x h = (Inr x, h)"

definition raise_io :: "error \<Rightarrow> 'a io" where
  "raise_io e h = (Inl e, h)"

definition bind_io :: "'a io \<Rightarrow> ('a \<Rightarrow> 'b io) \<Rightarrow> 'b io" where
  "bind_io m f h = (case m h of (Inl e, h') \<Rightarrow> (Inl e, h') | (Inr x, h') \<Rightarrow> f x h')"

text \<open>A \<^verbatim>\<open>for\<close> loop over a list; the first exception ends it.\<close>

fun for_each :: "('a \<Rightarrow> 'b io) \<Rightarrow> 'a list \<Rightarrow> unit io" where
  "for_each f [] h = (Inr (), h)"
| "for_each f (x # xs) h =
     (case f x h of (Inl e, h') \<Rightarrow> (Inl e, h') | (Inr _, h') \<Rightarrow> for_each f xs h')"

definition docs :: "string \<Rightarrow> database \<Rightarrow> document list" where
  "docs c d = (case map_of (colls d) c of None \<Rightarrow> [] | Some ds \<Rightarrow> ds)"

text \<open>A query filter: each named field is matched exactly, or as a sequence that contains
  one of the listed values (\<^verbatim>\<open>{"$in": [...]}\<close>).\<close>

datatype cond = Equals val | In_list "val list"

type_synonym query = "(string \<times> cond) list"

fun holds :: "document \<Rightarrow> string \<times> cond \<Rightarrow> bool" where
  "holds doc (k, Equals v) = (map_of doc k = Some v)"
| "holds doc (k, In_list vs) =
     (case map_of doc k of Some (VList xs) \<Rightarrow> list_ex (\<lambda>x. x \<in> set vs) xs | _ \<Rightarrow> False)"

definition matches :: "query \<Rightarrow> document \<Rightarrow> bool" where
  "matches q doc = list_all (holds doc) q"

text \<open>The next outcome of the server.\<close>

definition next_outcome :: "database \<Rightarrow> string option \<times> database" where
  "next_outcome d =
     (case faults d of [] \<Rightarrow> (None, d) | f # fs \<Rightarrow> (f, d\<lparr>faults := fs\<rparr>))"

definition db_op :: "(database \<Rightarrow> 'a \<times> database) \<Rightarrow> database \<Rightarrow> (error + 'a) \<times> database" where
  "db_op run d =
     (case next_outcome d of
        (Some msg, d') \<Rightarrow> (Inl (Exception msg), d')
      | (None, d') \<Rightarrow> (case run d' of (x, d'') \<Rightarrow> (Inr x, d'')))"

definition put :: "string \<Rightarrow> document \<Rightarrow> database \<Rightarrow> database" where
  "put c doc d =
     d\<lparr>colls := AList.update c (docs c d @ [(''_id'', VObjectId (next_oid d)) # doc]) (colls d),
       next_oid := Suc (next_oid d)\<rparr>"

definition insert_one :: "string \<Rightarrow> document \<Rightarrow> database \<Rightarrow> (error + val) \<times> database" where
  "insert_one c doc = db_op (\<lambda>d. (VObjectId (next_oid d), put c doc d))"

definition find :: "string \<Rightarrow> query \<Rightarrow> database \<Rightarrow> (error + document list) \<times> database" where
  "find c q = db_op (\<lambda>d. (filter (matches q) (docs c d), d))"

definition find_one :: "string \<Rightarrow> query \<Rightarrow> database \<Rightarrow> (error + document option) \<times> database" where
  "find_one c q = db_op (\<lambda>d. (List.find (matches q) (docs c d), d))"

definition count_documents :: "string \<Rightarrow> query \<Rightarrow> database \<Rightarrow> (error + nat) \<times> database" where
  "count_documents c q = db_op (\<lambda>d. (length (filter (matches q) (docs c d)), d))"

definition list_collection_names :: "database \<Rightarrow> (error + string list) \<times> database" where
  "list_collection_names = db_op (\<lambda>d. (map fst (colls d), d))"

text \<open>An operation on the process-wide handle; it raises when the handle was never
  established.\<close>

definition with_db :: "(database \<Rightarrow> (error + 'a) \<times> database) \<Rightarrow> 'a io" where
  "with_db m h =
     (case h of
        None \<Rightarrow> (Inl (Exception ''Database not available''), None)
      | Some d \<Rightarrow> (case m d of (r, d') \<Rightarrow> (r, Some d')))"

text \<open>How a generated identifier prints (\<^verbatim>\<open>str(inserted_id)\<close>).\<close>

fun digits :: "nat \<Rightarrow> string" where
  "digits n =
     (if n < 10 then [''0123456789'' ! n]
      else digits (n div 10) @ [''0123456789'' ! (n mod 10)])"

fun str_of_id :: "val \<Rightarrow> string" where
  "str_of_id (VObjectId n) = digits n"
| "str_of_id _ = []"

text \<open>Modelled from the spec: \<^verbatim>\<open>create_document\<close> of the missing \<^verbatim>\<open>database.py\<close>
  inserts the record's fields into the named collection and returns the generated
  identifier as a string; \<^verbatim>\<open>get_documents\<close> returns the documents of the named
  collection that match the filter. A persistence failure is an exception.\<close>

definition create_document :: "string \<Rightarrow> document \<Rightarrow> string io" where
  "create_document c data =
     bind_io (with_db (insert_one c data)) (\<lambda>i. return_io (str_of_id i))"

definition get_documents :: "string \<Rightarrow> query \<Rightarrow> document list io" where
  "get_documents c q = with_db (find c q)"

subsection \<open>Schemas (\<^verbatim>\<open>schemas.py\<close>)\<close>

record AppointmentRequest =
  full_name :: string
  email :: "string option"
  phone :: string
  preferred_date :: "string option"
  preferred_time :: "string option"
  service_type :: "string option"
  message :: "string option"
  source :: "string option"

record Testimonial =
  name :: string
  quote :: string
  rating :: int
  photo_url :: "string option"
  featured :: bool

record Post =
  title :: string
  slug :: string
  excerpt :: "string option"
  content :: string
  author :: "string option"
  tags :: "string list"
  published_at :: "nat option"
  status :: string

record Service =
  name :: string
  category :: string
  description :: string
  highlights :: "string list"
  icon :: "string option"
  slug :: "string option"

text \<open>The constructor of \<^verbatim>\<open>Testimonial\<close> checks \<^verbatim>\<open>ge=1, le=5\<close> on the rating and
  raises otherwise. \<^verbatim>\<open>Post\<close> and \<^verbatim>\<open>Service\<close> constrain only the types of their fields.
  Arguments the source leaves to their defaults are written out at the call.\<close>

definition new_Testimonial ::
  "string \<Rightarrow> string \<Rightarrow> int \<Rightarrow> string option \<Rightarrow> bool \<Rightarrow> error + Testimonial" where
  "new_Testimonial n q r p f =
     (if 1 \<le> r \<and> r \<le> 5
      then Inr \<lparr>Testimonial.name = n, quote = q, rating = r, photo_url = p, featured = f\<rparr>
      else Inl (Exception ''validation error for Testimonial: rating''))"

text \<open>The fields of a model as a document (\<^verbatim>\<open>model_dump\<close>), in declaration order.\<close>

definition opt_str :: "string option \<Rightarrow> val" where
  "opt_str x = (case x of None \<Rightarrow> VNone | Some s \<Rightarrow> VStr s)"

definition opt_time :: "nat option \<Rightarrow> val" where
  "opt_time x = (case x of None \<Rightarrow> VNone | Some t \<Rightarrow> VDatetime t)"

definition dump_AppointmentRequest :: "AppointmentRequest \<Rightarrow> document" where
  "dump_AppointmentRequest r =
     [(''full_name'', VStr (full_name r)),
      (''email'', opt_str (email r)),
      (''phone'', VStr (phone r)),
      (''preferred_date'', opt_str (preferred_date r)),
      (''preferred_time'', opt_str (preferred_time r)),
      (''service_type'', opt_str (service_type r)),
      (''message'', opt_str (message r)),
      (''source'', opt_str (source r))]"

definition dump_Testimonial :: "Testimonial \<Rightarrow> document" where
  "dump_Testimonial t =
     [(''name'', VStr (Testimonial.name t)),
      (''quote'', VStr (quote t)),
      (''rating'', VInt (rating t)),
      (''photo_url'', opt_str (photo_url t)),
      (''featured'', VBool (featured t))]"

definition dump_Post :: "Post \<Rightarrow> document" where
  "dump_Post p =
     [(''title'', VStr (title p)),
      (''slug'', VStr (Post.slug p)),
      (''excerpt'', opt_str (excerpt p)),
      (''content'', VStr (content p)),
      (''author'', opt_str (author p)),
      (''tags'', VList (map VStr (tags p))),
      (''published_at'', opt_time (published_at p)),
      (''status'', VStr (status p))]"

definition dump_Service :: "Service \<Rightarrow> document" where
  "dump_Service s =
     [(''name'', VStr (Service.name s)),
      (''category'', VStr (category s)),
      (''description'', VStr (description s)),
      (''highlights'', VList (map VStr (highlights s))),
      (''icon'', opt_str (icon s)),
      (''slug'', opt_str (Service.slug s))]"

text \<open>Validation of a request body (a JSON object) against \<^verbatim>\<open>AppointmentRequest\<close>.
  Every field is checked and the errors are collected. \<^verbatim>\<open>EmailStr\<close> comes from the
  validation library; it is a parameter here: the function that returns the validated
  address, or \<open>None\<close> for a malformed one.\<close>

datatype error_kind = Missing | String_type | Value_error

type_synonym field_error = "string \<times> error_kind"

definition required_str :: "string \<Rightarrow> document \<Rightarrow> field_error + string" where
  "required_str k body =
     (case map_of body k of
        None \<Rightarrow> Inl (k, Missing)
      | Some (VStr s) \<Rightarrow> Inr s
      | Some _ \<Rightarrow> Inl (k, String_type))"

definition optional_str ::
  "string \<Rightarrow> string option \<Rightarrow> document \<Rightarrow> field_error + string option" where
  "optional_str k dflt body =
     (case map_of body k of
        None \<Rightarrow> Inr dflt
      | Some VNone \<Rightarrow> Inr None
      | Some (VStr s) \<Rightarrow> Inr (Some s)
      | Some _ \<Rightarrow> Inl (k, String_type))"

definition optional_email ::
  "(string \<Rightarrow> string option) \<Rightarrow> string \<Rightarrow> document \<Rightarrow> field_error + string option" where
  "optional_email EmailStr k body =
     (case map_of body k of
        None \<Rightarrow> Inr None
      | Some VNone \<Rightarrow> Inr None
      | Some (VStr s) \<Rightarrow>
          (case EmailStr s of None \<Rightarrow> Inl (k, Value_error) | Some a \<Rightarrow> Inr (Some a))
      | Some _ \<Rightarrow> Inl (k, String_type))"

definition errors_of :: "field_error + 'a \<Rightarrow> field_error list" where
  "errors_of r = (case r of Inl e \<Rightarrow> [e] | Inr _ \<Rightarrow> [])"

definition field_errors :: "(string \<Rightarrow> string option) \<Rightarrow> document \<Rightarrow> field_error list" where
  "field_errors EmailStr body =
     errors_of (required_str ''full_name'' body) @
     errors_of (optional_email EmailStr ''email'' body) @
     errors_of (required_str ''phone'' body) @
     errors_of (optional_str ''preferred_date'' None body) @
     errors_of (optional_str ''preferred_time'' None body) @
     errors_of (optional_str ''service_type'' None body) @
     errors_of (optional_str ''message'' None body) @
     errors_of (optional_str ''source'' (Some ''website'') body)"

definition validate_AppointmentRequest ::
  "(string \<Rightarrow> string option) \<Rightarrow> document \<Rightarrow> field_error list + AppointmentRequest" where
  "validate_AppointmentRequest EmailStr body =
     (case required_str ''full_name'' body of Inl _ \<Rightarrow> Inl (field_errors EmailStr body) | Inr fn \<Rightarrow>
      case optional_email EmailStr ''email'' body of Inl _ \<Rightarrow> Inl (field_errors EmailStr body) | Inr em \<Rightarrow>
      case required_str ''phone'' body of Inl _ \<Rightarrow> Inl (field_errors EmailStr body) | Inr ph \<Rightarrow>
      case optional_str ''preferred_date'' None body of Inl _ \<Rightarrow> Inl (field_errors EmailStr body) | Inr pd \<Rightarrow>
      case optional_str ''preferred_time'' None body of Inl _ \<Rightarrow> Inl (field_errors EmailStr body) | Inr pt \<Rightarrow>
      case optional_str ''service_type'' None body of Inl _ \<Rightarrow> Inl (field_errors EmailStr body) | Inr st \<Rightarrow>
      case optional_str ''message'' None body of Inl _ \<Rightarrow> Inl (field_errors EmailStr body) | Inr ms \<Rightarrow>
      case optional_str ''source'' (Some ''website'') body of Inl _ \<Rightarrow> Inl (field_errors EmailStr body) | Inr sr \<Rightarrow>
        Inr \<lparr>full_name = fn, email = em, phone = ph, preferred_date = pd,
             preferred_time = pt, service_type = st, message = ms, source = sr\<rparr>)"

subsection \<open>Seeding (\<^verbatim>\<open>ensure_seed_data\<close>, \<^verbatim>\<open>startup_event\<close>)\<close>

definition SEED_RUN_FLAG :: string where
  "SEED_RUN_FLAG = ''__seed_paris_dental__''"

fun collect :: "(error + 'a) list \<Rightarrow> error + 'a list" where
  "collect [] = Inr []"
| "collect (x # xs) =
     (case x of
        Inl e \<Rightarrow> Inl e
      | Inr v \<Rightarrow> (case collect xs of Inl e \<Rightarrow> Inl e | Inr vs \<Rightarrow> Inr (v # vs)))"

definition samples :: "(error + Testimonial) list" where
  "samples =
     [new_Testimonial ''A.M.'' ''Best Temecula dentist experience I've ever had.'' 5 None True,
      new_Testimonial ''J.S.'' ''Beautiful office, gentle care, and amazing results!'' 5 None True,
      new_Testimonial ''K.R.'' ''They made me feel at ease from the moment I walked in.'' 5 None False]"

definition services :: "Service list" where
  "services =
     [\<lparr>Service.name = ''General Dentistry'', category = ''General'',
       description = ''Cleanings, exams, and preventive care for the whole family.'',
       highlights = [''Gentle cleanings'', ''Digital X-rays'', ''Comprehensive exams''],
       icon = Some ''Tooth'', slug = Some ''general-dentistry''\<rparr>,
      \<lparr>Service.name = ''Cosmetic Dentistry'', category = ''Cosmetic'',
       description = ''Veneers, whitening, and smile design for confident smiles.'',
       highlights = [''Porcelain veneers'', ''Professional whitening'', ''Bonding''],
       icon = Some ''Sparkles'', slug = Some ''cosmetic-dentistry''\<rparr>,
      \<lparr>Service.name = ''Dental Implants'', category = ''Restorative'',
       description = ''Modern implant solutions to replace missing teeth.'',
       highlights = [''Single and full-arch'', ''3D guided planning'', ''Natural aesthetics''],
       icon = Some ''Pillar'', slug = Some ''dental-implants''\<rparr>,
      \<lparr>Service.name = ''Periodontal Care'', category = ''Periodontal'',
       description = ''Laser-assisted therapy and maintenance for healthy gums.'',
       highlights = [''Laser therapy'', ''Deep cleaning'', ''Periodontal maintenance''],
       icon = Some ''HeartPulse'', slug = Some ''periodontal-care''\<rparr>,
      \<lparr>Service.name = ''Dental Technology'', category = ''Technology'',
       description = ''State-of-the-art tech for precision and comfort.'',
       highlights = [''CAD/CAM same-day'', ''3D CBCT imaging'', ''Intraoral scanning''],
       icon = Some ''Cpu'', slug = Some ''dental-technology''\<rparr>]"

text \<open>The welcome post; \<open>now\<close> is what \<^verbatim>\<open>datetime.utcnow()\<close> returns when it is built.\<close>

definition welcome_post :: "nat \<Rightarrow> Post" where
  "welcome_post now =
     \<lparr>title = ''Welcome to Paris Dental '' @ en_dash @ '' Modern Dental Care in Temecula'',
      Post.slug = ''welcome-paris-dental'',
      excerpt = Some ''Discover patient-first care powered by advanced technology in Temecula.'',
      content = ''We are thrilled to welcome you to our modern practice led by Dr. Noorullah Azim. Our team focuses on comfort, precision, and beautiful results.'',
      author = Some ''Paris Dental'',
      tags = [''Temecula dentist'', ''cosmetic dentistry''],
      published_at = Some now,
      status = ''published''\<rparr>"

definition seed_testimonials :: "unit io" where
  "seed_testimonials =
     bind_io (with_db (count_documents ''testimonial'' [])) (\<lambda>n.
       if n = 0
       then (case collect samples of
               Inl e \<Rightarrow> raise_io e
             | Inr ts \<Rightarrow> for_each (\<lambda>t. create_document ''testimonial'' (dump_Testimonial t)) ts)
       else return_io ())"

definition seed_services :: "unit io" where
  "seed_services =
     bind_io (with_db (count_documents ''service'' [])) (\<lambda>n.
       if n = 0
       then for_each (\<lambda>s. create_document ''service'' (dump_Service s)) services
       else return_io ())"

definition seed_post :: "nat \<Rightarrow> unit io" where
  "seed_post now =
     bind_io (with_db (count_documents ''post'' [])) (\<lambda>n.
       if n = 0
       then bind_io (create_document ''post'' (dump_Post (welcome_post now))) (\<lambda>_. return_io ())
       else return_io ())"

definition sentinel_query :: query where
  "sentinel_query = [(''key'', Equals (VStr SEED_RUN_FLAG))]"

text \<open>The sentinel record; \<open>now\<close> is its creation timestamp.\<close>

definition sentinel_doc :: "nat \<Rightarrow> document" where
  "sentinel_doc now = [(''key'', VStr SEED_RUN_FLAG), (''created_at'', VDatetime now)]"

text \<open>\<open>t_post\<close> and \<open>t_meta\<close> are the two readings of the clock, for the post and for the
  sentinel.\<close>

definition ensure_seed_data :: "nat \<Rightarrow> nat \<Rightarrow> unit io" where
  "ensure_seed_data t_post t_meta h =
     (if h = None then (Inr (), h)
      else bind_io (with_db (find_one ''meta'' sentinel_query)) (\<lambda>found.
             if truthy_doc found then return_io ()
             else bind_io seed_testimonials (\<lambda>_.
                  bind_io seed_services (\<lambda>_.
                  bind_io (seed_post t_post) (\<lambda>_.
                  bind_io (with_db (insert_one ''meta'' (sentinel_doc t_meta)))
                    (\<lambda>_. return_io ()))))) h)"

definition startup_event :: "nat \<Rightarrow> nat \<Rightarrow> unit io" where
  "startup_event t_post t_meta h =
     (case ensure_seed_data t_post t_meta h of
        (Inl e, h') \<Rightarrow> (Inr (), h')
      | (Inr u, h') \<Rightarrow> (Inr (), h'))"

text \<open>The sentinel is in the metadata collection.\<close>

definition has_sentinel :: "database \<Rightarrow> bool" where
  "has_sentinel d = list_ex (matches sentinel_query) (docs ''meta'' d)"

subsection \<open>Request handlers\<close>

text \<open>What a route answers with: the value the handler returns (status 200), the
  \<^verbatim>\<open>HTTPException\<close> it raises, or the framework's rejection of a body that fails the
  schema (status 422). The framework calls the handler only with a validated body.\<close>

datatype http_error = HTTPException nat string | RequestValidationError "field_error list"

fun error_status :: "http_error \<Rightarrow> nat" where
  "error_status (HTTPException code detail) = code"
| "error_status (RequestValidationError errs) = 422"

definition status_code :: "http_error + 'a \<Rightarrow> nat" where
  "status_code r = (case r of Inl e \<Rightarrow> error_status e | Inr _ \<Rightarrow> 200)"

type_synonym 'a route = "handle \<Rightarrow> (http_error + 'a) \<times> handle"

text \<open>\<^verbatim>\<open>try: ... except Exception as e: raise HTTPException(status_code=500, detail=str(e))\<close>\<close>

definition or_500 :: "'a io \<Rightarrow> 'a route" where
  "or_500 m h =
     (case m h of
        (Inl (Exception msg), h') \<Rightarrow> (Inl (HTTPException 500 msg), h')
      | (Inr x, h') \<Rightarrow> (Inr x, h'))"

definition test_database :: "(string \<Rightarrow> string option) \<Rightarrow> handle \<Rightarrow> document \<times> handle" where
  "test_database getenv h =
     (let response =
            [(''backend'', VStr (check_mark @ '' Running'')),
             (''database'', VStr (cross_mark @ '' Not Available'')),
             (''database_url'', VStr (cross_mark @ '' Not Set'')),
             (''database_name'', VStr (cross_mark @ '' Not Set'')),
             (''connection_status'', VStr ''Not Connected''),
             (''collections'', VList [])]
      in case h of
           Some d \<Rightarrow>
             (let r1 = AList.update ''database'' (VStr (check_mark @ '' Available'')) response;
                  r2 = AList.update ''database_url''
                         (VStr (if truthy_str (getenv ''DATABASE_URL'')
                                then check_mark @ '' Set'' else cross_mark @ '' Not Set'')) r1;
                  r3 = AList.update ''database_name''
                         (VStr (case getenv ''DATABASE_NAME'' of
                                  Some n \<Rightarrow> if n \<noteq> [] then n else cross_mark @ '' Not Set''
                                | None \<Rightarrow> cross_mark @ '' Not Set'')) r2;
                  r4 = AList.update ''connection_status'' (VStr ''Connected'') r3
              in case list_collection_names d of
                   (Inr names, d') \<Rightarrow>
                     (AList.update ''database'' (VStr (check_mark @ '' Connected & Working''))
                        (AList.update ''collections'' (VList (map VStr names)) r4), Some d')
                 | (Inl (Exception msg), d') \<Rightarrow>
                     (AList.update ''database''
                        (VStr (warning_sign @ '' Connected but Error: '' @ take 80 msg)) r4, Some d'))
         | None \<Rightarrow>
             (AList.update ''database'' (VStr (warning_sign @ '' Available but not initialized''))
                response, None))"

text \<open>\<^verbatim>\<open>GET /test\<close>: the handler has no path that raises, so the route answers with
  what it returns.\<close>

definition route_test :: "(string \<Rightarrow> string option) \<Rightarrow> document route" where
  "route_test getenv h = (case test_database getenv h of (r, h') \<Rightarrow> (Inr r, h'))"

definition create_appointment :: "AppointmentRequest \<Rightarrow> document route" where
  "create_appointment request =
     or_500 (bind_io (create_document ''appointmentrequest'' (dump_AppointmentRequest request))
               (\<lambda>inserted_id. return_io [(''id'', VStr inserted_id), (''success'', VBool True)]))"

text \<open>Modelled from the spec: the web framework that serves \<^verbatim>\<open>POST /api/appointment\<close> is
  not among the source files. The spec has it validate the body against the schema and
  reject it with a client-error response before the handler, and so the database, is
  reached.\<close>

definition route_appointment :: "(string \<Rightarrow> string option) \<Rightarrow> document \<Rightarrow> document route" where
  "route_appointment EmailStr body h =
     (case validate_AppointmentRequest EmailStr body of
        Inl errs \<Rightarrow> (Inl (RequestValidationError errs), h)
      | Inr request \<Rightarrow> create_appointment request h)"

definition pop_id :: "document \<Rightarrow> document" where
  "pop_id d = AList.delete ''_id'' d"

definition testimonials_filter :: "bool option \<Rightarrow> query" where
  "testimonials_filter featured_q =
     (case featured_q of None \<Rightarrow> [] | Some b \<Rightarrow> [(''featured'', Equals (VBool b))])"

definition get_testimonials :: "bool option \<Rightarrow> document list route" where
  "get_testimonials featured_q =
     or_500 (bind_io (get_documents ''testimonial'' (testimonials_filter featured_q))
               (\<lambda>ds. return_io (map pop_id ds)))"

definition services_filter :: "string option \<Rightarrow> query" where
  "services_filter category_q =
     (case category_q of
        Some c \<Rightarrow> if truthy_str category_q then [(''category'', Equals (VStr c))] else []
      | None \<Rightarrow> [])"

definition get_services :: "string option \<Rightarrow> document list route" where
  "get_services category_q =
     or_500 (bind_io (get_documents ''service'' (services_filter category_q))
               (\<lambda>ds. return_io (map pop_id ds)))"

definition posts_filter :: "string option \<Rightarrow> query" where
  "posts_filter tag_q =
     (case tag_q of
        Some t \<Rightarrow> if truthy_str tag_q then [(''tags'', In_list [VStr t])] else []
      | None \<Rightarrow> [])"

definition get_posts :: "string option \<Rightarrow> document list route" where
  "get_posts tag_q =
     or_500 (bind_io (get_documents ''post'' (posts_filter tag_q))
               (\<lambda>ds. return_io (map pop_id ds)))"

subsection \<open>Notions used in the proofs\<close>

text \<open>The metadata collection behind a handle; an operation keeps it when it returns the
  handle with the same metadata documents, whether it raises or not.\<close>

definition meta_docs :: "handle \<Rightarrow> document list option" where
  "meta_docs h = map_option (docs ''meta'') h"

definition keeps_meta :: "'a io \<Rightarrow> bool" where
  "keeps_meta m = (\<forall>h. meta_docs (snd (m h)) = meta_docs h)"

text \<open>What a run of the seed routine started on \<open>d\<close> leaves in the metadata collection.\<close>

definition seed_outcome :: "nat \<Rightarrow> database \<Rightarrow> error + unit \<Rightarrow> handle \<Rightarrow> bool" where
  "seed_outcome t d r h' =
     (\<exists>d'. h' = Some d' \<and>
        (case r of
           Inl e \<Rightarrow> docs ''meta'' d' = docs ''meta'' d
         | Inr u \<Rightarrow>
             if has_sentinel d then docs ''meta'' d' = docs ''meta'' d
             else \<exists>i. docs ''meta'' d' = docs ''meta'' d @ [(''_id'', i) # sentinel_doc t]))"

text \<open>The database after the documents \<open>xs\<close> were inserted one after the other, and
  after a collection was seeded if it was empty.\<close>

definition put_all :: "string \<Rightarrow> document list \<Rightarrow> database \<Rightarrow> database" where
  "put_all c xs d = foldl (\<lambda>d x. put c x d) d xs"

definition seed_if_empty :: "string \<Rightarrow> document list \<Rightarrow> database \<Rightarrow> database" where
  "seed_if_empty c xs d = (if docs c d = [] then put_all c xs d else d)"

text \<open>The two fields of the probe's report that are read from the environment.\<close>

definition url_status :: "(string \<Rightarrow> string option) \<Rightarrow> val" where
  "url_status getenv =
     VStr (if truthy_str (getenv ''DATABASE_URL'')
           then check_mark @ '' Set'' else cross_mark @ '' Not Set'')"

definition name_status :: "(string \<Rightarrow> string option) \<Rightarrow> val" where
  "name_status getenv =
     VStr (case getenv ''DATABASE_NAME'' of
             Some n \<Rightarrow> if n \<noteq> [] then n else cross_mark @ '' Not Set''
           | None \<Rightarrow> cross_mark @ '' Not Set'')"

subsection \<open>Example states\<close>

text \<open>Concrete databases, environments and request bodies, on which the properties below
  are instantiated. \<open>example_EmailStr\<close> accepts a string with an \<open>@\<close> and returns it
  unchanged.\<close>

definition db_empty :: database where
  "db_empty = \<lparr>colls = [], next_oid = 0, faults = []\<rparr>"

definition general_doc :: document where
  "general_doc =
     [(''name'', VStr ''General Dentistry''),
      (''category'', VStr ''General''),
      (''description'', VStr ''Cleanings, exams, and preventive care for the whole family.''),
      (''highlights'', VList [VStr ''Gentle cleanings'', VStr ''Digital X-rays'']),
      (''icon'', VStr ''Tooth''),
      (''slug'', VStr ''general-dentistry'')]"

definition db_one_service :: database where
  "db_one_service =
     \<lparr>colls = [(''service'', [(''_id'', VObjectId 0) # general_doc])], next_oid = 1, faults = []\<rparr>"

definition testimonial_doc :: document where
  "testimonial_doc =
     [(''name'', VStr ''L.T.''),
      (''quote'', VStr ''Friendly staff.''),
      (''rating'', VInt 4),
      (''photo_url'', VNone),
      (''featured'', VBool True)]"

definition db_one_testimonial :: database where
  "db_one_testimonial =
     \<lparr>colls = [(''testimonial'', [(''_id'', VObjectId 0) # testimonial_doc])],
      next_oid = 1, faults = []\<rparr>"

definition db_failing :: database where
  "db_failing = \<lparr>colls = [], next_oid = 0, faults = [None, None, Some ''connection lost'']\<rparr>"

definition db_unreachable :: database where
  "db_unreachable = \<lparr>colls = [], next_oid = 0, faults = [Some ''connection refused'']\<rparr>"

definition env_unset :: "string \<Rightarrow> string option" where
  "env_unset = (\<lambda>_. None)"

definition example_EmailStr :: "string \<Rightarrow> string option" where
  "example_EmailStr = (\<lambda>s. if CHR ''@'' \<in> set s then Some s else None)"

definition body_valid :: document where
  "body_valid =
     [(''full_name'', VStr ''Ann Lee''),
      (''email'', VStr ''ann@example.com''),
      (''phone'', VStr ''555-0100''),
      (''message'', VStr ''Cleaning, please.'')]"

definition body_no_phone :: document where
  "body_no_phone = [(''full_name'', VStr ''Ann Lee''), (''email'', VStr ''ann@example.com'')]"

definition body_bad_email :: document where
  "body_bad_email =
     [(''full_name'', VStr ''Ann Lee''), (''email'', VStr ''not-an-email''),
      (''phone'', VStr ''555-0100'')]"

text \<open>An \<^verbatim>\<open>EmailStr\<close> that returns the address with its domain in lower case, and a
  body whose address it rewrites, with the database its submission leaves.\<close>

definition lower_char :: "char \<Rightarrow> char" where
  "lower_char c =
     (case map_of (zip ''ABCDEFGHIJKLMNOPQRSTUVWXYZ'' ''abcdefghijklmnopqrstuvwxyz'') c of
        Some l \<Rightarrow> l
      | None \<Rightarrow> c)"

definition lowering_EmailStr :: "string \<Rightarrow> string option" where
  "lowering_EmailStr s =
     (if CHR ''@'' \<in> set s
      then Some (takeWhile (\<lambda>c. c \<noteq> CHR ''@'') s @
                 map lower_char (dropWhile (\<lambda>c. c \<noteq> CHR ''@'') s))
      else None)"

definition body_upper_email :: document where
  "body_upper_email =
     [(''full_name'', VStr ''Ann Lee''),
      (''email'', VStr ''Ann@EXAMPLE.COM''),
      (''phone'', VStr ''555-0100'')]"

definition db_after_appointment :: database where
  "db_after_appointment =
     \<lparr>colls =
        [(''appointmentrequest'',
          [[(''_id'', VObjectId 0),
            (''full_name'', VStr ''Ann Lee''),
            (''email'', VStr ''Ann@example.com''),
            (''phone'', VStr ''555-0100''),
            (''preferred_date'', VNone),
            (''preferred_time'', VNone),
            (''service_type'', VNone),
            (''message'', VNone),
            (''source'', VStr ''website'')]])],
      next_oid = 1, faults = []\<rparr>"

section \<open>Properties\<close>

subsection \<open>Database operations\<close>

lemma docs_faults_update: "docs c (d\<lparr>faults := fs\<rparr>) = docs c d"
  by (simp add: docs_def)

lemma db_op_eq:
  "db_op run d =
     (case faults d of
        [] \<Rightarrow> (Inr (fst (run d)), snd (run d))
      | None # fs \<Rightarrow> (Inr (fst (run (d\<lparr>faults := fs\<rparr>))), snd (run (d\<lparr>faults := fs\<rparr>)))
      | Some msg # fs \<Rightarrow> (Inl (Exception msg), d\<lparr>faults := fs\<rparr>))"
  by (simp add: db_op_def next_outcome_def split: list.splits option.splits prod.splits)

lemma db_op_reader_docs:
  "docs c (snd (db_op (\<lambda>d. (f d, d)) d)) = docs c d"
  by (simp add: db_op_eq docs_faults_update split: list.splits option.splits)

lemma docs_put: "docs c' (put c doc d) =
  (if c' = c then docs c d @ [(''_id'', VObjectId (next_oid d)) # doc] else docs c' d)"
  by (simp add: docs_def put_def update_conv')

lemma insert_one_docs_other:
  "c' \<noteq> c \<Longrightarrow> docs c' (snd (insert_one c doc d)) = docs c' d"
  by (simp add: insert_one_def db_op_eq docs_faults_update docs_put split: list.splits option.splits)

lemma meta_docs_with_db:
  "(\<And>d. docs ''meta'' (snd (m d)) = docs ''meta'' d) \<Longrightarrow> keeps_meta (with_db m)"
  by (auto simp: keeps_meta_def meta_docs_def with_db_def split: option.splits prod.splits)
     (metis snd_conv)

lemma keeps_meta_count: "keeps_meta (with_db (count_documents c q))"
  by (rule meta_docs_with_db) (simp add: count_documents_def db_op_reader_docs)

lemma keeps_meta_find_one: "keeps_meta (with_db (find_one c q))"
  by (rule meta_docs_with_db) (simp add: find_one_def db_op_reader_docs)

lemma keeps_meta_return: "keeps_meta (return_io x)"
  by (simp add: keeps_meta_def return_io_def)

lemma keeps_meta_raise: "keeps_meta (raise_io e)"
  by (simp add: keeps_meta_def raise_io_def)

lemma keeps_meta_bind:
  "keeps_meta m \<Longrightarrow> (\<And>x. keeps_meta (f x)) \<Longrightarrow> keeps_meta (bind_io m f)"
  unfolding keeps_meta_def bind_io_def
  by (auto split: prod.splits sum.splits) (metis snd_conv)+

lemma keeps_meta_create:
  "c \<noteq> ''meta'' \<Longrightarrow> keeps_meta (create_document c data)"
  unfolding create_document_def
  by (intro keeps_meta_bind keeps_meta_return meta_docs_with_db) (simp add: insert_one_docs_other)

lemma keeps_meta_for_each:
  "(\<And>x. keeps_meta (f x)) \<Longrightarrow> keeps_meta (for_each f xs)"
proof (induction xs)
  case Nil
  show ?case by (simp add: keeps_meta_def)
next
  case (Cons x xs)
  have "\<And>h. meta_docs (snd (for_each f (x # xs) h)) = meta_docs h"
  proof -
    fix h
    obtain r h1 where step: "f x h = (r, h1)" by (cases "f x h")
    have m1: "meta_docs h1 = meta_docs h"
      using Cons.prems [of x] step by (auto simp: keeps_meta_def dest: spec [of _ h])
    have m2: "meta_docs (snd (for_each f xs h1)) = meta_docs h1"
      using Cons.IH Cons.prems by (simp add: keeps_meta_def)
    show "meta_docs (snd (for_each f (x # xs) h)) = meta_docs h"
      using step m1 m2 by (cases r) simp_all
  qed
  then show ?case by (simp add: keeps_meta_def)
qed

lemma keeps_meta_seed_testimonials: "keeps_meta seed_testimonials"
  unfolding seed_testimonials_def
  by (intro keeps_meta_bind keeps_meta_count)
     (auto intro!: keeps_meta_for_each keeps_meta_create keeps_meta_raise keeps_meta_return
           split: sum.splits)

lemma keeps_meta_seed_services: "keeps_meta seed_services"
  unfolding seed_services_def
  by (intro keeps_meta_bind keeps_meta_count)
     (auto intro!: keeps_meta_for_each keeps_meta_create keeps_meta_return)

lemma keeps_meta_seed_post: "keeps_meta (seed_post t)"
  unfolding seed_post_def
  by (intro keeps_meta_bind keeps_meta_count)
     (auto intro!: keeps_meta_bind keeps_meta_create keeps_meta_return)

lemma keeps_meta_Some:
  assumes "keeps_meta m" and "m (Some d) = (r, h')"
  shows "\<exists>d'. h' = Some d' \<and> docs ''meta'' d' = docs ''meta'' d"
proof -
  have "meta_docs (snd (m (Some d))) = meta_docs (Some d)"
    using assms(1) by (simp add: keeps_meta_def)
  then show ?thesis
    using assms(2) by (cases h') (simp_all add: meta_docs_def)
qed

lemma bind_keeps_meta_post:
  assumes km: "keeps_meta m"
    and k: "\<And>d1 r h'. docs ''meta'' d1 = ms \<Longrightarrow> k (Some d1) = (r, h') \<Longrightarrow> Q r h'"
    and e: "\<And>e d1. docs ''meta'' d1 = ms \<Longrightarrow> Q (Inl e) (Some d1)"
    and run: "bind_io m (\<lambda>_. k) (Some d) = (r, h')"
    and ms: "docs ''meta'' d = ms"
  shows "Q r h'"
proof -
  obtain r1 h1 where step: "m (Some d) = (r1, h1)"
    by (cases "m (Some d)")
  from keeps_meta_Some [OF km step] ms obtain d1
    where h1: "h1 = Some d1" and m1: "docs ''meta'' d1 = ms"
    by auto
  show ?thesis
  proof (cases r1)
    case (Inl err)
    with run step h1 have "r = Inl err" and "h' = Some d1"
      by (simp_all add: bind_io_def)
    with e [OF m1] show ?thesis by simp
  next
    case (Inr x)
    with run step h1 have "k (Some d1) = (r, h')"
      by (simp add: bind_io_def)
    with k [OF m1] show ?thesis by simp
  qed
qed

lemma insert_sentinel_post:
  assumes "with_db (insert_one ''meta'' doc) (Some d) = (r, h')"
  shows "\<exists>d'. h' = Some d' \<and>
     (case r of
        Inl e \<Rightarrow> docs ''meta'' d' = docs ''meta'' d
      | Inr i \<Rightarrow> docs ''meta'' d' = docs ''meta'' d @ [(''_id'', i) # doc])"
  using assms
  by (auto simp: with_db_def insert_one_def db_op_eq docs_put docs_faults_update
           split: list.splits option.splits)

lemma matches_sentinel_nonempty: "matches sentinel_query doc \<Longrightarrow> doc \<noteq> []"
  by (auto simp: matches_def sentinel_query_def)

lemma truthy_find_sentinel:
  "truthy_doc (List.find (matches sentinel_query) (docs ''meta'' d)) = has_sentinel d"
proof (cases "List.find (matches sentinel_query) (docs ''meta'' d)")
  case None
  then have "\<not> has_sentinel d"
    by (simp add: find_None_iff has_sentinel_def list_ex_iff)
  with None show ?thesis by simp
next
  case (Some doc)
  then have "matches sentinel_query doc" and "doc \<in> set (docs ''meta'' d)"
    by (auto simp: find_Some_iff in_set_conv_nth)
  with Some show ?thesis
    by (auto simp: has_sentinel_def list_ex_iff dest: matches_sentinel_nonempty)
qed

lemma find_one_result:
  "with_db (find_one c q) (Some d) = (Inr found, h') \<Longrightarrow> found = List.find (matches q) (docs c d)"
  by (auto simp: with_db_def find_one_def db_op_eq docs_faults_update split: list.splits option.splits)

lemma ensure_seed_data_meta:
  assumes run: "ensure_seed_data t1 t2 (Some d) = (r, h')"
  shows "seed_outcome t2 d r h'"
proof -
  let ?Q = "seed_outcome t2 d"
  let ?ins = "bind_io (with_db (insert_one ''meta'' (sentinel_doc t2))) (\<lambda>_. return_io ())"
  obtain r0 h0 where look: "with_db (find_one ''meta'' sentinel_query) (Some d) = (r0, h0)"
    by (cases "with_db (find_one ''meta'' sentinel_query) (Some d)")
  from keeps_meta_Some [OF keeps_meta_find_one look] obtain d0
    where h0: "h0 = Some d0" and m0: "docs ''meta'' d0 = docs ''meta'' d"
    by auto
  have err: "\<And>e d1. docs ''meta'' d1 = docs ''meta'' d \<Longrightarrow> ?Q (Inl e) (Some d1)"
    by (simp add: seed_outcome_def)
  show ?thesis
  proof (cases r0)
    case (Inl e)
    with run look h0 have "r = Inl e" and "h' = Some d0"
      by (simp_all add: ensure_seed_data_def bind_io_def)
    with err [OF m0] show ?thesis by simp
  next
    case (Inr found)
    with look have found: "truthy_doc found = has_sentinel d"
      by (auto dest!: find_one_result simp: truthy_find_sentinel)
    show ?thesis
    proof (cases "has_sentinel d")
      case True
      with run look h0 Inr found have "r = Inr ()" and "h' = Some d0"
        by (simp_all add: ensure_seed_data_def bind_io_def return_io_def)
      with True m0 show ?thesis by (simp add: seed_outcome_def)
    next
      case False
      with run look h0 Inr found have rest:
        "bind_io seed_testimonials (\<lambda>_.
           bind_io seed_services (\<lambda>_.
           bind_io (seed_post t1) (\<lambda>_. ?ins))) (Some d0) = (r, h')"
        by (simp add: ensure_seed_data_def bind_io_def)
      have last: "?Q r' h''"
        if "docs ''meta'' d1 = docs ''meta'' d" and "?ins (Some d1) = (r', h'')" for d1 r' h''
      proof -
        obtain ri hi where ins: "with_db (insert_one ''meta'' (sentinel_doc t2)) (Some d1) = (ri, hi)"
          by (cases "with_db (insert_one ''meta'' (sentinel_doc t2)) (Some d1)")
        from insert_sentinel_post [OF ins] that ins False show ?thesis
          by (cases ri) (auto simp: bind_io_def return_io_def seed_outcome_def)
      qed
      have p3: "?Q r' h''"
        if "docs ''meta'' d1 = docs ''meta'' d"
          and "bind_io (seed_post t1) (\<lambda>_. ?ins) (Some d1) = (r', h'')" for d1 r' h''
        using keeps_meta_seed_post last err that(2) that(1)
        by (rule bind_keeps_meta_post)
      have p2: "?Q r' h''"
        if "docs ''meta'' d1 = docs ''meta'' d"
          and "bind_io seed_services (\<lambda>_. bind_io (seed_post t1) (\<lambda>_. ?ins)) (Some d1) = (r', h'')"
        for d1 r' h''
        using keeps_meta_seed_services p3 err that(2) that(1)
        by (rule bind_keeps_meta_post)
      show ?thesis
        using keeps_meta_seed_testimonials p2 err rest m0
        by (rule bind_keeps_meta_post)
    qed
  qed
qed

lemma db_op_no_faults: "faults d = [] \<Longrightarrow> db_op run d = (Inr (fst (run d)), snd (run d))"
  by (simp add: db_op_eq)

lemma faults_put: "faults (put c doc d) = faults d"
  by (simp add: put_def)

lemma matches_Nil: "matches [] doc"
  by (simp add: matches_def)

lemma create_document_no_faults:
  "faults d = [] \<Longrightarrow>
   create_document c data (Some d) = (Inr (digits (next_oid d)), Some (put c data d))"
  by (simp add: create_document_def bind_io_def with_db_def insert_one_def db_op_no_faults return_io_def)

lemma count_no_faults:
  "faults d = [] \<Longrightarrow> with_db (count_documents c []) (Some d) = (Inr (length (docs c d)), Some d)"
  by (simp add: with_db_def count_documents_def db_op_no_faults matches_Nil)

lemma for_each_create_no_faults:
  "faults d = [] \<Longrightarrow>
   for_each (\<lambda>x. create_document c (f x)) xs (Some d) = (Inr (), Some (put_all c (map f xs) d))"
  by (induction xs arbitrary: d) (simp_all add: put_all_def create_document_no_faults faults_put)

lemma faults_put_all: "faults (put_all c xs d) = faults d"
  by (induction xs arbitrary: d) (simp_all add: put_all_def faults_put)

lemma docs_put_all_other: "c' \<noteq> c \<Longrightarrow> docs c' (put_all c xs d) = docs c' d"
  by (induction xs arbitrary: d) (simp_all add: put_all_def docs_put)

lemma pop_id_stored: "map_of doc ''_id'' = None \<Longrightarrow> pop_id ((''_id'', i) # doc) = doc"
  by (simp add: pop_id_def map_of_eq_None_iff)

lemma docs_put_all_same:
  "(\<And>x. x \<in> set xs \<Longrightarrow> map_of x ''_id'' = None) \<Longrightarrow>
   map pop_id (docs c (put_all c xs d)) = map pop_id (docs c d) @ xs"
proof (induction xs arbitrary: d)
  case Nil
  show ?case by (simp add: put_all_def)
next
  case (Cons x xs)
  have "map pop_id (docs c (put_all c xs (put c x d))) = map pop_id (docs c (put c x d)) @ xs"
    using Cons.prems by (intro Cons.IH) simp
  moreover have "put_all c (x # xs) d = put_all c xs (put c x d)"
    by (simp add: put_all_def)
  moreover have "map_of x ''_id'' = None"
    using Cons.prems by simp
  ultimately show ?case
    by (simp add: docs_put pop_id_stored)
qed

lemma length_docs_put_all: "length (docs c (put_all c xs d)) = length (docs c d) + length xs"
  by (induction xs arbitrary: d) (simp_all add: put_all_def docs_put)

lemma faults_seed_if_empty: "faults (seed_if_empty c xs d) = faults d"
  by (simp add: seed_if_empty_def faults_put_all)

lemma docs_seed_if_empty_other: "c' \<noteq> c \<Longrightarrow> docs c' (seed_if_empty c xs d) = docs c' d"
  by (simp add: seed_if_empty_def docs_put_all_other)

lemma docs_seed_if_empty_kept: "docs c d \<noteq> [] \<Longrightarrow> docs c (seed_if_empty c xs d) = docs c d"
  by (simp add: seed_if_empty_def)

lemma docs_seed_if_empty_new:
  "docs c d = [] \<Longrightarrow> (\<And>x. x \<in> set xs \<Longrightarrow> map_of x ''_id'' = None) \<Longrightarrow>
   map pop_id (docs c (seed_if_empty c xs d)) = xs"
  by (simp add: seed_if_empty_def docs_put_all_same)

lemma collect_samples: "\<exists>ts. collect samples = Inr ts \<and> length ts = 3"
  by (simp add: samples_def new_Testimonial_def)

lemma seed_testimonials_no_faults:
  assumes "faults d = []"
  shows "\<exists>ts. collect samples = Inr ts \<and> length ts = 3 \<and>
    seed_testimonials (Some d) =
      (Inr (), Some (seed_if_empty ''testimonial'' (map dump_Testimonial ts) d))"
proof -
  from collect_samples obtain ts where ts: "collect samples = Inr ts" "length ts = 3"
    by blast
  have "seed_testimonials (Some d) =
      (Inr (), Some (seed_if_empty ''testimonial'' (map dump_Testimonial ts) d))"
    using assms ts(1)
    by (simp add: seed_testimonials_def bind_io_def count_no_faults for_each_create_no_faults
          return_io_def seed_if_empty_def)
  with ts show ?thesis by blast
qed

lemma seed_services_no_faults:
  "faults d = [] \<Longrightarrow>
   seed_services (Some d) = (Inr (), Some (seed_if_empty ''service'' (map dump_Service services) d))"
  by (simp add: seed_services_def bind_io_def count_no_faults for_each_create_no_faults
        return_io_def seed_if_empty_def)

lemma seed_post_no_faults:
  "faults d = [] \<Longrightarrow>
   seed_post t (Some d) = (Inr (), Some (seed_if_empty ''post'' [dump_Post (welcome_post t)] d))"
  by (simp add: seed_post_def bind_io_def count_no_faults create_document_no_faults
        return_io_def seed_if_empty_def put_all_def)

lemma find_one_no_faults:
  "faults d = [] \<Longrightarrow>
   with_db (find_one c q) (Some d) = (Inr (List.find (matches q) (docs c d)), Some d)"
  by (simp add: with_db_def find_one_def db_op_no_faults)

lemma insert_one_no_faults:
  "faults d = [] \<Longrightarrow>
   with_db (insert_one c doc) (Some d) = (Inr (VObjectId (next_oid d)), Some (put c doc d))"
  by (simp add: with_db_def insert_one_def db_op_no_faults)

lemma ensure_seed_data_seeded:
  assumes "faults d = []" and "has_sentinel d"
  shows "ensure_seed_data t1 t2 (Some d) = (Inr (), Some d)"
  using assms
  by (simp add: ensure_seed_data_def bind_io_def find_one_no_faults truthy_find_sentinel return_io_def)

lemma ensure_seed_data_fresh:
  assumes nf: "faults d = []" and ns: "\<not> has_sentinel d"
  shows "\<exists>ts. collect samples = Inr ts \<and> length ts = 3 \<and>
    ensure_seed_data t1 t2 (Some d) =
      (Inr (), Some (put ''meta'' (sentinel_doc t2)
         (seed_if_empty ''post'' [dump_Post (welcome_post t1)]
            (seed_if_empty ''service'' (map dump_Service services)
               (seed_if_empty ''testimonial'' (map dump_Testimonial ts) d)))))"
proof -
  from seed_testimonials_no_faults [OF nf] obtain ts
    where ts: "collect samples = Inr ts" "length ts = 3"
      and t: "seed_testimonials (Some d) =
        (Inr (), Some (seed_if_empty ''testimonial'' (map dump_Testimonial ts) d))"
    by blast
  let ?d1 = "seed_if_empty ''testimonial'' (map dump_Testimonial ts) d"
  let ?d2 = "seed_if_empty ''service'' (map dump_Service services) ?d1"
  let ?d3 = "seed_if_empty ''post'' [dump_Post (welcome_post t1)] ?d2"
  have f1: "faults ?d1 = []" and f2: "faults ?d2 = []" and f3: "faults ?d3 = []"
    using nf by (simp_all add: faults_seed_if_empty)
  have "ensure_seed_data t1 t2 (Some d) = (Inr (), Some (put ''meta'' (sentinel_doc t2) ?d3))"
    using nf ns t seed_services_no_faults [OF f1] seed_post_no_faults [OF f2, of t1]
      insert_one_no_faults [OF f3]
    by (simp add: ensure_seed_data_def bind_io_def find_one_no_faults truthy_find_sentinel
          return_io_def)
  with ts show ?thesis by blast
qed

subsection \<open>Seeding\<close>

lemma has_sentinel_put_meta: "has_sentinel (put ''meta'' (sentinel_doc t) d)"
  by (simp add: has_sentinel_def docs_put sentinel_doc_def sentinel_query_def matches_def)

lemma has_sentinel_append:
  "docs ''meta'' d' = docs ''meta'' d @ [(''_id'', i) # sentinel_doc t] \<Longrightarrow> has_sentinel d'"
  by (simp add: has_sentinel_def sentinel_doc_def sentinel_query_def matches_def)

lemma has_sentinel_cong: "docs ''meta'' d' = docs ''meta'' d \<Longrightarrow> has_sentinel d' = has_sentinel d"
  by (simp add: has_sentinel_def)

lemma dump_Testimonial_no_id: "map_of (dump_Testimonial t) ''_id'' = None"
  by (simp add: dump_Testimonial_def)

lemma dump_Service_no_id: "map_of (dump_Service s) ''_id'' = None"
  by (simp add: dump_Service_def)

lemma dump_Post_no_id: "map_of (dump_Post p) ''_id'' = None"
  by (simp add: dump_Post_def)

lemma length_services: "length services = 5"
  by (simp add: services_def)

lemma empty_no_sentinel: "docs ''meta'' d = [] \<Longrightarrow> \<not> has_sentinel d"
  by (simp add: has_sentinel_def)

lemma length_docs_seed_if_empty_new:
  "docs c d = [] \<Longrightarrow> length (docs c (seed_if_empty c xs d)) = length xs"
  by (simp add: seed_if_empty_def length_docs_put_all)

lemma faults_db_empty: "faults db_empty = []"
  by (simp add: db_empty_def)

lemma docs_db_empty: "docs c db_empty = []"
  by (simp add: docs_def db_empty_def)

lemma faults_db_one_testimonial: "faults db_one_testimonial = []"
  by (simp add: db_one_testimonial_def)

lemma docs_db_one_testimonial:
  "docs c db_one_testimonial =
     (if c = ''testimonial'' then [(''_id'', VObjectId 0) # testimonial_doc] else [])"
  by (simp add: docs_def db_one_testimonial_def)

lemma no_sentinel_db_one_testimonial: "\<not> has_sentinel db_one_testimonial"
  by (simp add: has_sentinel_def docs_db_one_testimonial)

lemma run_db_failing:
  "ensure_seed_data t1 t2 (Some db_failing) = (Inl (Exception ''connection lost''), Some db_empty)"
  by (simp add: ensure_seed_data_def bind_io_def with_db_def find_one_def count_documents_def
        db_op_eq db_failing_def db_empty_def docs_def return_io_def raise_io_def
        seed_testimonials_def samples_def new_Testimonial_def create_document_def insert_one_def)

text \<open>
  Claim C1. On an empty database whose operations do not fail, a run of the seed routine
  leaves 3 testimonials, 5 services, 1 post and 1 metadata record, the sentinel; a second
  run returns normally and leaves the same counts.
\<close>

theorem seeding_twice_same_counts:
  assumes nf: "faults d = []" and empty: "\<forall>c. docs c d = []"
  shows "\<exists>d1 d2.
      ensure_seed_data t1 t2 (Some d) = (Inr (), Some d1) \<and>
      ensure_seed_data t3 t4 (Some d1) = (Inr (), Some d2) \<and>
      length (docs ''testimonial'' d1) = 3 \<and> length (docs ''testimonial'' d2) = 3 \<and>
      length (docs ''service'' d1) = 5 \<and> length (docs ''service'' d2) = 5 \<and>
      length (docs ''post'' d1) = 1 \<and> length (docs ''post'' d2) = 1 \<and>
      length (docs ''meta'' d1) = 1 \<and> length (docs ''meta'' d2) = 1 \<and>
      has_sentinel d1 \<and> has_sentinel d2"
proof -
  from empty have ns: "\<not> has_sentinel d"
    by (simp add: empty_no_sentinel)
  from ensure_seed_data_fresh [OF nf ns, of t1 t2] obtain ts
    where len: "length ts = 3"
      and run: "ensure_seed_data t1 t2 (Some d) =
        (Inr (), Some (put ''meta'' (sentinel_doc t2)
           (seed_if_empty ''post'' [dump_Post (welcome_post t1)]
              (seed_if_empty ''service'' (map dump_Service services)
                 (seed_if_empty ''testimonial'' (map dump_Testimonial ts) d)))))"
    by blast
  let ?d1 = "put ''meta'' (sentinel_doc t2)
           (seed_if_empty ''post'' [dump_Post (welcome_post t1)]
              (seed_if_empty ''service'' (map dump_Service services)
                 (seed_if_empty ''testimonial'' (map dump_Testimonial ts) d)))"
  have f1: "faults ?d1 = []"
    using nf by (simp add: faults_put faults_seed_if_empty)
  have s1: "has_sentinel ?d1"
    by (rule has_sentinel_put_meta)
  have again: "ensure_seed_data t3 t4 (Some ?d1) = (Inr (), Some ?d1)"
    using f1 s1 by (rule ensure_seed_data_seeded)
  have t: "length (docs ''testimonial'' ?d1) = 3"
    using empty len
    by (simp add: docs_put docs_seed_if_empty_other length_docs_seed_if_empty_new)
  have s: "length (docs ''service'' ?d1) = 5"
    using empty
    by (simp add: docs_put docs_seed_if_empty_other length_docs_seed_if_empty_new
          length_services)
  have p: "length (docs ''post'' ?d1) = 1"
    using empty
    by (simp add: docs_put docs_seed_if_empty_other length_docs_seed_if_empty_new)
  have m: "length (docs ''meta'' ?d1) = 1"
    using empty
    by (simp add: docs_put docs_seed_if_empty_other)
  from run again t s p m s1 show ?thesis
    by blast
qed

theorem seeding_twice_same_counts_witness:
  "faults db_empty = [] \<and> (\<forall>c. docs c db_empty = []) \<and>
   (\<exists>d1 d2.
      ensure_seed_data 10 11 (Some db_empty) = (Inr (), Some d1) \<and>
      ensure_seed_data 20 21 (Some d1) = (Inr (), Some d2) \<and>
      length (docs ''testimonial'' d1) = 3 \<and> length (docs ''testimonial'' d2) = 3 \<and>
      length (docs ''service'' d1) = 5 \<and> length (docs ''service'' d2) = 5 \<and>
      length (docs ''post'' d1) = 1 \<and> length (docs ''post'' d2) = 1 \<and>
      length (docs ''meta'' d1) = 1 \<and> length (docs ''meta'' d2) = 1 \<and>
      has_sentinel d1 \<and> has_sentinel d2)"
proof -
  have e: "\<forall>c. docs c db_empty = []"
    by (simp add: docs_db_empty)
  from faults_db_empty e seeding_twice_same_counts [OF faults_db_empty e, of 10 11 20 21]
  show ?thesis by (intro conjI)
qed

text \<open>
  Claim C2. On a database without the sentinel whose operations do not fail, when the
  testimonial collection holds a record before the run, the run leaves that collection as
  it was; the service collection is seeded with the five services if it was empty and
  left as it was otherwise, and so is the post collection with the welcome post.
\<close>

theorem seeding_per_collection:
  assumes nf: "faults d = []" and ns: "\<not> has_sentinel d"
    and some: "docs ''testimonial'' d \<noteq> []"
  shows "\<exists>d'. ensure_seed_data t1 t2 (Some d) = (Inr (), Some d') \<and>
      docs ''testimonial'' d' = docs ''testimonial'' d \<and>
      (if docs ''service'' d = []
       then map pop_id (docs ''service'' d') = map dump_Service services
       else docs ''service'' d' = docs ''service'' d) \<and>
      (if docs ''post'' d = []
       then map pop_id (docs ''post'' d') = [dump_Post (welcome_post t1)]
       else docs ''post'' d' = docs ''post'' d)"
proof -
  from ensure_seed_data_fresh [OF nf ns, of t1 t2] obtain ts
    where run: "ensure_seed_data t1 t2 (Some d) =
        (Inr (), Some (put ''meta'' (sentinel_doc t2)
           (seed_if_empty ''post'' [dump_Post (welcome_post t1)]
              (seed_if_empty ''service'' (map dump_Service services)
                 (seed_if_empty ''testimonial'' (map dump_Testimonial ts) d)))))"
    by blast
  let ?d1 = "seed_if_empty ''testimonial'' (map dump_Testimonial ts) d"
  let ?d2 = "seed_if_empty ''service'' (map dump_Service services) ?d1"
  let ?d3 = "seed_if_empty ''post'' [dump_Post (welcome_post t1)] ?d2"
  let ?d4 = "put ''meta'' (sentinel_doc t2) ?d3"
  have d1: "?d1 = d"
    using some by (simp add: seed_if_empty_def)
  have t: "docs ''testimonial'' ?d4 = docs ''testimonial'' d"
    by (simp add: d1 docs_put docs_seed_if_empty_other)
  have s_new: "map pop_id (docs ''service'' ?d4) = map dump_Service services"
    if "docs ''service'' d = []"
  proof -
    have "map pop_id (docs ''service'' (seed_if_empty ''service'' (map dump_Service services) d)) =
        map dump_Service services"
      using that by (rule docs_seed_if_empty_new) (auto simp: dump_Service_no_id)
    then show ?thesis
      by (simp add: d1 docs_put docs_seed_if_empty_other)
  qed
  have s_old: "docs ''service'' ?d4 = docs ''service'' d" if "docs ''service'' d \<noteq> []"
    using that by (simp add: d1 docs_put docs_seed_if_empty_other docs_seed_if_empty_kept)
  have p0: "docs ''post'' ?d2 = docs ''post'' d"
    by (simp add: d1 docs_seed_if_empty_other)
  have p_new: "map pop_id (docs ''post'' ?d4) = [dump_Post (welcome_post t1)]"
    if "docs ''post'' d = []"
  proof -
    from that p0 have "docs ''post'' ?d2 = []" by simp
    then have "map pop_id (docs ''post'' ?d3) = [dump_Post (welcome_post t1)]"
      by (rule docs_seed_if_empty_new) (simp add: dump_Post_no_id)
    then show ?thesis by (simp add: docs_put)
  qed
  have p_old: "docs ''post'' ?d4 = docs ''post'' d" if "docs ''post'' d \<noteq> []"
  proof -
    from that p0 have "docs ''post'' ?d2 \<noteq> []" by simp
    then have "docs ''post'' ?d3 = docs ''post'' ?d2"
      by (rule docs_seed_if_empty_kept)
    with p0 show ?thesis by (simp add: docs_put)
  qed
  from run t s_new s_old p_new p_old show ?thesis
    by (intro exI [of _ ?d4]) simp
qed

theorem seeding_per_collection_witness:
  "faults db_one_testimonial = [] \<and> \<not> has_sentinel db_one_testimonial \<and>
   docs ''testimonial'' db_one_testimonial \<noteq> [] \<and>
   (\<exists>d'. ensure_seed_data 10 11 (Some db_one_testimonial) = (Inr (), Some d') \<and>
      docs ''testimonial'' d' = [(''_id'', VObjectId 0) # testimonial_doc] \<and>
      map pop_id (docs ''service'' d') = map dump_Service services \<and>
      map pop_id (docs ''post'' d') = [dump_Post (welcome_post 10)])"
proof -
  have some: "docs ''testimonial'' db_one_testimonial \<noteq> []"
    by (simp add: docs_db_one_testimonial)
  from seeding_per_collection [OF faults_db_one_testimonial no_sentinel_db_one_testimonial some,
      of 10 11]
  have "\<exists>d'. ensure_seed_data 10 11 (Some db_one_testimonial) = (Inr (), Some d') \<and>
      docs ''testimonial'' d' = [(''_id'', VObjectId 0) # testimonial_doc] \<and>
      map pop_id (docs ''service'' d') = map dump_Service services \<and>
      map pop_id (docs ''post'' d') = [dump_Post (welcome_post 10)]"
    by (simp add: docs_db_one_testimonial)
  with faults_db_one_testimonial no_sentinel_db_one_testimonial some
  show ?thesis by (intro conjI)
qed

text \<open>
  Claim C3. With the handle established and no sentinel present, a run on a database whose
  operations do not fail returns normally, and every run that returns normally has
  appended the sentinel record to the metadata collection, whatever the content
  collections held.
\<close>

theorem sentinel_written_at_the_end:
  assumes ns: "\<not> has_sentinel d"
  shows "(faults d = [] \<longrightarrow> fst (ensure_seed_data t1 t2 (Some d)) = Inr ()) \<and>
    (\<forall>h'. ensure_seed_data t1 t2 (Some d) = (Inr (), h') \<longrightarrow>
       (\<exists>d' i. h' = Some d' \<and>
          docs ''meta'' d' = docs ''meta'' d @ [(''_id'', i) # sentinel_doc t2] \<and>
          has_sentinel d'))"
proof (intro conjI impI allI)
  assume "faults d = []"
  from ensure_seed_data_fresh [OF this ns, of t1 t2]
  show "fst (ensure_seed_data t1 t2 (Some d)) = Inr ()"
    by auto
next
  fix h'
  assume "ensure_seed_data t1 t2 (Some d) = (Inr (), h')"
  from ensure_seed_data_meta [OF this] ns
  show "\<exists>d' i. h' = Some d' \<and>
          docs ''meta'' d' = docs ''meta'' d @ [(''_id'', i) # sentinel_doc t2] \<and>
          has_sentinel d'"
    by (auto simp: seed_outcome_def intro: has_sentinel_append)
qed

theorem sentinel_written_at_the_end_witness:
  "\<not> has_sentinel db_one_testimonial \<and> faults db_one_testimonial = [] \<and>
   fst (ensure_seed_data 10 11 (Some db_one_testimonial)) = Inr () \<and>
   (\<exists>d' i. snd (ensure_seed_data 10 11 (Some db_one_testimonial)) = Some d' \<and>
      docs ''meta'' d' = [(''_id'', i) # sentinel_doc 11] \<and> has_sentinel d')"
proof -
  note t = sentinel_written_at_the_end [OF no_sentinel_db_one_testimonial, of 10 11]
  from t faults_db_one_testimonial
  have ok: "fst (ensure_seed_data 10 11 (Some db_one_testimonial)) = Inr ()"
    by blast
  then have "ensure_seed_data 10 11 (Some db_one_testimonial) =
      (Inr (), snd (ensure_seed_data 10 11 (Some db_one_testimonial)))"
    by (metis prod.collapse)
  with t have "\<exists>d' i. snd (ensure_seed_data 10 11 (Some db_one_testimonial)) = Some d' \<and>
      docs ''meta'' d' = docs ''meta'' db_one_testimonial @ [(''_id'', i) # sentinel_doc 11] \<and>
      has_sentinel d'"
    by blast
  then have "\<exists>d' i. snd (ensure_seed_data 10 11 (Some db_one_testimonial)) = Some d' \<and>
      docs ''meta'' d' = [(''_id'', i) # sentinel_doc 11] \<and> has_sentinel d'"
    by (simp add: docs_db_one_testimonial)
  with no_sentinel_db_one_testimonial faults_db_one_testimonial ok
  show ?thesis by (intro conjI)
qed

text \<open>
  Claim C9. A run of the seed routine that raises leaves the metadata collection as it
  was, so without the sentinel if it had none: the sentinel is written by the last
  operation. The startup hook returns normally in that case with the same database, as it
  does for every handle.
\<close>

theorem failed_seeding_leaves_no_sentinel:
  assumes run: "ensure_seed_data t1 t2 (Some d) = (Inl e, h')"
  shows "\<exists>d'. h' = Some d' \<and>
      docs ''meta'' d' = docs ''meta'' d \<and>
      (\<not> has_sentinel d \<longrightarrow> \<not> has_sentinel d') \<and>
      startup_event t1 t2 (Some d) = (Inr (), h') \<and>
      fst (startup_event t3 t4 h0) = Inr ()"
proof -
  from ensure_seed_data_meta [OF run] obtain d'
    where h': "h' = Some d'" and m: "docs ''meta'' d' = docs ''meta'' d"
    by (auto simp: seed_outcome_def)
  have "startup_event t1 t2 (Some d) = (Inr (), h')"
    using run by (simp add: startup_event_def)
  moreover have "fst (startup_event t3 t4 h0) = Inr ()"
    by (simp add: startup_event_def split: prod.splits sum.splits)
  ultimately show ?thesis
    using h' m has_sentinel_cong [OF m] by simp
qed

theorem failed_seeding_leaves_no_sentinel_witness:
  "ensure_seed_data 10 11 (Some db_failing) = (Inl (Exception ''connection lost''), Some db_empty) \<and>
   docs ''meta'' db_empty = [] \<and> \<not> has_sentinel db_failing \<and> \<not> has_sentinel db_empty \<and>
   startup_event 10 11 (Some db_failing) = (Inr (), Some db_empty)"
proof -
  note run = run_db_failing [of 10 11]
  have nf: "\<not> has_sentinel db_failing"
    by (simp add: has_sentinel_def docs_def db_failing_def)
  from failed_seeding_leaves_no_sentinel [OF run, of 0 0 None] nf
  have "\<not> has_sentinel db_empty"
    and "startup_event 10 11 (Some db_failing) = (Inr (), Some db_empty)"
    by auto
  with run nf show ?thesis
    by (simp add: docs_db_empty)
qed

subsection \<open>Listing endpoints\<close>

lemma map_of_pop_id: "map_of (pop_id d) ''_id'' = None"
  by (simp add: pop_id_def delete_conv')

lemma map_of_pop_id_other: "k \<noteq> ''_id'' \<Longrightarrow> map_of (pop_id d) k = map_of d k"
  by (simp add: pop_id_def delete_conv')

lemma or_500_Inr: "or_500 m h = (Inr x, h') \<longleftrightarrow> m h = (Inr x, h')"
  by (auto simp: or_500_def split: prod.splits sum.splits error.splits)

lemma listing_result:
  "or_500 (bind_io (get_documents c q) (\<lambda>ds. return_io (map pop_id ds))) h = (Inr res, h')
   \<Longrightarrow> \<exists>ds. get_documents c q h = (Inr ds, h') \<and> res = map pop_id ds"
  by (auto simp: or_500_Inr bind_io_def return_io_def split: prod.splits sum.splits)

lemma get_documents_result:
  "get_documents c q h = (Inr ds, h') \<Longrightarrow> \<exists>d. h = Some d \<and> ds = filter (matches q) (docs c d)"
  by (auto simp: get_documents_def with_db_def find_def db_op_eq docs_faults_update
           split: option.splits list.splits)

lemma get_documents_no_faults:
  "faults d = [] \<Longrightarrow> get_documents c q (Some d) = (Inr (filter (matches q) (docs c d)), Some d)"
  by (simp add: get_documents_def with_db_def find_def db_op_no_faults)

lemma listing_no_faults:
  "faults d = [] \<Longrightarrow>
   or_500 (bind_io (get_documents c q) (\<lambda>ds. return_io (map pop_id ds))) (Some d) =
     (Inr (map pop_id (filter (matches q) (docs c d))), Some d)"
  by (simp add: or_500_def bind_io_def return_io_def get_documents_no_faults)

lemma filter_matches_Nil: "filter (matches []) xs = xs"
  by (simp add: matches_Nil)

lemma matches_category:
  "matches [(''category'', Equals (VStr c))] doc \<longleftrightarrow> map_of doc ''category'' = Some (VStr c)"
  by (simp add: matches_def)

lemma docs_db_one_service:
  "docs ''service'' db_one_service = [(''_id'', VObjectId 0) # general_doc]"
  by (simp add: docs_def db_one_service_def)

lemma docs_post_db_one_service: "docs ''post'' db_one_service = []"
  by (simp add: docs_def db_one_service_def)

lemma faults_db_one_service: "faults db_one_service = []"
  by (simp add: db_one_service_def)

lemma general_doc_no_id: "map_of general_doc ''_id'' = None"
  by (simp add: general_doc_def)

lemma general_doc_category: "map_of general_doc ''category'' = Some (VStr ''General'')"
  by (simp add: general_doc_def)

lemma stored_general_doc:
  "map pop_id (docs ''service'' db_one_service) = [general_doc]"
  by (simp add: docs_db_one_service pop_id_stored general_doc_no_id)

lemma get_services_all_example:
  "get_services None (Some db_one_service) = (Inr [general_doc], Some db_one_service)"
  by (simp add: get_services_def services_filter_def listing_no_faults filter_matches_Nil
        stored_general_doc faults_db_one_service)

text \<open>
  Claim C6, as amended. When the \<^verbatim>\<open>category\<close> parameter of \<^verbatim>\<open>GET /api/services\<close> is
  given and is not the empty string, the handler queries the service collection with the
  filter \<^verbatim>\<open>{category: value}\<close>, every service of a successful response has exactly that
  category, and on a database whose operations do not fail the response is the services of
  that category, the empty array when there is none. When the parameter is omitted the
  filter is empty and the response is every service.
\<close>

theorem services_by_category:
  assumes "c \<noteq> []"
  shows "services_filter (Some c) = [(''category'', Equals (VStr c))] \<and>
    (\<forall>res h'. get_services (Some c) h = (Inr res, h') \<longrightarrow>
       (\<forall>doc\<in>set res. map_of doc ''category'' = Some (VStr c))) \<and>
    (faults d = [] \<longrightarrow>
       get_services (Some c) (Some d) =
         (Inr (map pop_id (filter (\<lambda>doc. map_of doc ''category'' = Some (VStr c))
                 (docs ''service'' d))), Some d)) \<and>
    (faults d = [] \<longrightarrow>
       (\<forall>doc\<in>set (docs ''service'' d). map_of doc ''category'' \<noteq> Some (VStr c)) \<longrightarrow>
       get_services (Some c) (Some d) = (Inr [], Some d)) \<and>
    services_filter None = [] \<and>
    (faults d = [] \<longrightarrow>
       get_services None (Some d) = (Inr (map pop_id (docs ''service'' d)), Some d))"
proof -
  have flt: "services_filter (Some c) = [(''category'', Equals (VStr c))]"
    using assms by (simp add: services_filter_def)
  have only: "\<forall>res h'. get_services (Some c) h = (Inr res, h') \<longrightarrow>
       (\<forall>doc\<in>set res. map_of doc ''category'' = Some (VStr c))"
    unfolding get_services_def flt
    by (auto dest!: listing_result get_documents_result
             simp: matches_category map_of_pop_id_other)
  have run: "get_services (Some c) (Some d) =
         (Inr (map pop_id (filter (\<lambda>doc. map_of doc ''category'' = Some (VStr c))
                 (docs ''service'' d))), Some d)" if "faults d = []"
    using that by (simp add: get_services_def flt listing_no_faults matches_category [abs_def])
  have none: "get_services (Some c) (Some d) = (Inr [], Some d)"
    if "faults d = []"
      and "\<forall>doc\<in>set (docs ''service'' d). map_of doc ''category'' \<noteq> Some (VStr c)"
  proof -
    from that(2) have "filter (\<lambda>doc. map_of doc ''category'' = Some (VStr c)) (docs ''service'' d) = []"
      by (simp add: filter_empty_conv)
    with run [OF that(1)] show ?thesis by simp
  qed
  have all: "get_services None (Some d) = (Inr (map pop_id (docs ''service'' d)), Some d)"
    if "faults d = []"
    using that by (simp add: get_services_def services_filter_def listing_no_faults filter_matches_Nil)
  show ?thesis
    using flt only run none all by (simp add: services_filter_def)
qed

theorem services_by_category_witness:
  "''General'' \<noteq> [] \<and> faults db_one_service = [] \<and>
   services_filter (Some ''General'') = [(''category'', Equals (VStr ''General''))] \<and>
   get_services (Some ''General'') (Some db_one_service) = (Inr [general_doc], Some db_one_service) \<and>
   get_services (Some ''Cosmetic'') (Some db_one_service) = (Inr [], Some db_one_service)"
proof -
  have g: "''General'' \<noteq> []" and c: "''Cosmetic'' \<noteq> []"
    by simp_all
  from services_by_category [OF g, of _ db_one_service] faults_db_one_service
  have flt: "services_filter (Some ''General'') = [(''category'', Equals (VStr ''General''))]"
    and run: "get_services (Some ''General'') (Some db_one_service) =
      (Inr (map pop_id (filter (\<lambda>doc. map_of doc ''category'' = Some (VStr ''General''))
              (docs ''service'' db_one_service))), Some db_one_service)"
    by blast+
  have none: "\<forall>doc\<in>set (docs ''service'' db_one_service).
      map_of doc ''category'' \<noteq> Some (VStr ''Cosmetic'')"
    by (simp add: docs_db_one_service general_doc_category)
  from services_by_category [OF c, of _ db_one_service] faults_db_one_service none
  have empty: "get_services (Some ''Cosmetic'') (Some db_one_service) = (Inr [], Some db_one_service)"
    by blast
  from run have "get_services (Some ''General'') (Some db_one_service) =
      (Inr [general_doc], Some db_one_service)"
    by (simp add: docs_db_one_service general_doc_category pop_id_stored general_doc_no_id)
  with g flt empty show ?thesis
    by (simp only: faults_db_one_service simp_thms)
qed

text \<open>
  Claim C6 as it is stated fails for a parameter that is given but empty: the filter is
  then empty and a service of category \<^verbatim>\<open>General\<close> is returned for the category
  \<^verbatim>\<open>""\<close>.
\<close>

theorem services_given_but_empty_counterexample:
  "get_services (Some '''') (Some db_one_service) = (Inr [general_doc], Some db_one_service) \<and>
   map_of general_doc ''category'' = Some (VStr ''General'') \<and>
   services_filter (Some '''') = []"
proof -
  have "get_services (Some '''') (Some db_one_service) = get_services None (Some db_one_service)"
    by (simp add: get_services_def services_filter_def)
  then show ?thesis
    by (simp add: get_services_all_example general_doc_category services_filter_def)
qed

text \<open>
  Claim C7. In every successful response of \<^verbatim>\<open>GET /api/testimonials\<close>,
  \<^verbatim>\<open>GET /api/services\<close> and \<^verbatim>\<open>GET /api/posts\<close>, no returned object has the field
  \<^verbatim>\<open>_id\<close>.
\<close>

theorem listing_strips_internal_id:
  "(get_testimonials f h = (Inr rt, ht) \<longrightarrow> (\<forall>d\<in>set rt. map_of d ''_id'' = None)) \<and>
   (get_services c h = (Inr rs, hs) \<longrightarrow> (\<forall>d\<in>set rs. map_of d ''_id'' = None)) \<and>
   (get_posts t h = (Inr rp, hp) \<longrightarrow> (\<forall>d\<in>set rp. map_of d ''_id'' = None))"
  unfolding get_testimonials_def get_services_def get_posts_def
  by (auto dest!: listing_result simp: map_of_pop_id)

theorem listing_strips_internal_id_witness:
  "get_services None (Some db_one_service) = (Inr [general_doc], Some db_one_service) \<and>
   list_all (\<lambda>d. map_of d ''_id'' = None) [general_doc]"
proof -
  note run = get_services_all_example
  from listing_strips_internal_id [where c = None and h = "Some db_one_service"
      and rs = "[general_doc]" and hs = "Some db_one_service"] run
  have "\<forall>d\<in>set [general_doc]. map_of d ''_id'' = None"
    by blast
  then have "list_all (\<lambda>d. map_of d ''_id'' = None) [general_doc]"
    by (simp only: list_all_iff)
  with run show ?thesis by (rule conjI)
qed

text \<open>
  Claim C10. A \<^verbatim>\<open>category\<close> or \<^verbatim>\<open>tag\<close> parameter that is present but empty gives the empty
  filter, and the request is answered exactly as the request without the parameter; on a
  database whose operations do not fail that is every record of the collection.
\<close>

theorem empty_parameter_is_no_filter:
  "services_filter (Some []) = [] \<and> posts_filter (Some []) = [] \<and>
   get_services (Some []) h = get_services None h \<and>
   get_posts (Some []) h = get_posts None h \<and>
   (faults d = [] \<longrightarrow>
      get_services (Some []) (Some d) = (Inr (map pop_id (docs ''service'' d)), Some d) \<and>
      get_posts (Some []) (Some d) = (Inr (map pop_id (docs ''post'' d)), Some d))"
  by (simp add: services_filter_def posts_filter_def get_services_def get_posts_def
        listing_no_faults filter_matches_Nil)

theorem empty_parameter_is_no_filter_witness:
  "faults db_one_service = [] \<and>
   get_services (Some '''') (Some db_one_service) = (Inr [general_doc], Some db_one_service) \<and>
   get_posts (Some '''') (Some db_one_service) = (Inr [], Some db_one_service)"
proof -
  from empty_parameter_is_no_filter [of _ db_one_service] faults_db_one_service
  have "get_services (Some '''') (Some db_one_service) =
      (Inr (map pop_id (docs ''service'' db_one_service)), Some db_one_service)"
    and "get_posts (Some '''') (Some db_one_service) =
      (Inr (map pop_id (docs ''post'' db_one_service)), Some db_one_service)"
    by blast+
  then show ?thesis
    by (simp add: faults_db_one_service stored_general_doc docs_post_db_one_service)
qed

subsection \<open>The diagnostic probe\<close>

lemma list_collection_names_eq:
  "list_collection_names d =
     (case faults d of
        [] \<Rightarrow> (Inr (map fst (colls d)), d)
      | None # fs \<Rightarrow> (Inr (map fst (colls d)), d\<lparr>faults := fs\<rparr>)
      | Some msg # fs \<Rightarrow> (Inl (Exception msg), d\<lparr>faults := fs\<rparr>))"
  by (simp add: list_collection_names_def db_op_eq split: list.splits option.splits)

lemma test_database_None_value:
  "fst (test_database getenv None) =
     [(''backend'', VStr (check_mark @ '' Running'')),
      (''database'', VStr (warning_sign @ '' Available but not initialized'')),
      (''database_url'', VStr (cross_mark @ '' Not Set'')),
      (''database_name'', VStr (cross_mark @ '' Not Set'')),
      (''connection_status'', VStr ''Not Connected''),
      (''collections'', VList [])]"
  by (simp add: test_database_def)

lemma test_database_raises_value:
  "faults d = Some msg # fs \<Longrightarrow>
   fst (test_database getenv (Some d)) =
     [(''backend'', VStr (check_mark @ '' Running'')),
      (''database'', VStr (warning_sign @ '' Connected but Error: '' @ take 80 msg)),
      (''database_url'', url_status getenv),
      (''database_name'', name_status getenv),
      (''connection_status'', VStr ''Connected''),
      (''collections'', VList [])]"
  by (simp add: test_database_def list_collection_names_eq Let_def url_status_def
        name_status_def)

lemma test_database_works_value:
  "faults d = [] \<or> faults d = None # fs \<Longrightarrow>
   fst (test_database getenv (Some d)) =
     [(''backend'', VStr (check_mark @ '' Running'')),
      (''database'', VStr (check_mark @ '' Connected & Working'')),
      (''database_url'', url_status getenv),
      (''database_name'', name_status getenv),
      (''connection_status'', VStr ''Connected''),
      (''collections'', VList (map VStr (map fst (colls d))))]"
  by (auto simp: test_database_def list_collection_names_eq Let_def url_status_def
        name_status_def)

lemma test_database_cases:
  obtains "h = None"
  | d msg fs where "h = Some d" and "faults d = Some msg # fs"
  | d fs where "h = Some d" and "faults d = [] \<or> faults d = None # fs"
proof (cases h)
  case None
  then show ?thesis by (rule that(1))
next
  case (Some d)
  show ?thesis
  proof (cases "faults d")
    case Nil
    with Some show ?thesis by (intro that(3) [of d "[]"]) simp_all
  next
    case (Cons f fs)
    with Some show ?thesis
      by (cases f) (auto intro: that(2) [of d _ fs] that(3) [of d fs])
  qed
qed

lemma test_database_keys:
  "map fst (fst (test_database getenv h)) =
     [''backend'', ''database'', ''database_url'', ''database_name'', ''connection_status'',
      ''collections'']"
  by (cases h rule: test_database_cases)
     (simp_all add: test_database_None_value test_database_raises_value
        test_database_works_value)

lemma test_database_None:
  "map_of (fst (test_database getenv None)) ''database'' =
     Some (VStr (warning_sign @ '' Available but not initialized''))"
  by (simp add: test_database_None_value)

lemma test_database_raises:
  "faults d = Some msg # fs \<Longrightarrow>
   map_of (fst (test_database getenv (Some d))) ''database'' =
     Some (VStr (warning_sign @ '' Connected but Error: '' @ take 80 msg))"
  by (simp add: test_database_raises_value)

lemma test_database_string:
  "\<exists>s. map_of (fst (test_database getenv h)) ''database'' = Some (VStr s) \<and> s \<noteq> []"
  by (cases h rule: test_database_cases)
     (simp_all add: test_database_None_value test_database_raises_value
        test_database_works_value warning_sign_def check_mark_def)

text \<open>
  Claim C8. For every environment and every state of the handle, \<^verbatim>\<open>GET /test\<close> answers
  with status 200 and a body that has exactly the six fields; its \<^verbatim>\<open>database\<close> field is a
  non-empty string, which names the failure when the handle is absent and when
  \<^verbatim>\<open>list_collection_names\<close> raises (then with the first 80 characters of the message).
\<close>

theorem test_route_never_fails:
  "\<exists>r h'. route_test getenv h = (Inr r, h') \<and>
     status_code (fst (route_test getenv h)) = 200 \<and>
     map fst r = [''backend'', ''database'', ''database_url'', ''database_name'',
                  ''connection_status'', ''collections''] \<and>
     (\<exists>s. map_of r ''database'' = Some (VStr s) \<and> s \<noteq> []) \<and>
     (h = None \<longrightarrow>
        map_of r ''database'' = Some (VStr (warning_sign @ '' Available but not initialized''))) \<and>
     (\<forall>d msg fs. h = Some d \<and> faults d = Some msg # fs \<longrightarrow>
        map_of r ''database'' =
          Some (VStr (warning_sign @ '' Connected but Error: '' @ take 80 msg)))"
proof -
  obtain r h' where t: "test_database getenv h = (r, h')"
    by (cases "test_database getenv h")
  then have route: "route_test getenv h = (Inr r, h')"
    by (simp add: route_test_def)
  have r: "r = fst (test_database getenv h)"
    using t by simp
  have a: "status_code (fst (route_test getenv h)) = 200"
    using route by (simp add: status_code_def)
  have b: "map fst r = [''backend'', ''database'', ''database_url'', ''database_name'',
                  ''connection_status'', ''collections'']"
    unfolding r by (rule test_database_keys)
  have c: "\<exists>s. map_of r ''database'' = Some (VStr s) \<and> s \<noteq> []"
    unfolding r by (rule test_database_string)
  have d: "h = None \<longrightarrow>
        map_of r ''database'' = Some (VStr (warning_sign @ '' Available but not initialized''))"
    unfolding r by (auto simp: test_database_None)
  have e: "\<forall>d msg fs. h = Some d \<and> faults d = Some msg # fs \<longrightarrow>
        map_of r ''database'' =
          Some (VStr (warning_sign @ '' Connected but Error: '' @ take 80 msg))"
    unfolding r by (auto simp: test_database_raises)
  show ?thesis
    by (rule exI [of _ r], rule exI [of _ h']) (intro conjI route a b c d e)
qed

theorem test_route_never_fails_witness:
  "status_code (fst (route_test env_unset None)) = 200 \<and>
   map_of (projr (fst (route_test env_unset None))) ''database'' =
     Some (VStr (warning_sign @ '' Available but not initialized'')) \<and>
   faults db_unreachable = [Some ''connection refused''] \<and>
   status_code (fst (route_test env_unset (Some db_unreachable))) = 200 \<and>
   map_of (projr (fst (route_test env_unset (Some db_unreachable)))) ''database'' =
     Some (VStr (warning_sign @ '' Connected but Error: connection refused''))"
proof -
  have f: "faults db_unreachable = [Some ''connection refused'']"
    by (simp add: db_unreachable_def)
  from test_route_never_fails [of env_unset None]
  have a: "status_code (fst (route_test env_unset None)) = 200"
    and b: "map_of (projr (fst (route_test env_unset None))) ''database'' =
      Some (VStr (warning_sign @ '' Available but not initialized''))"
    by auto
  from test_route_never_fails [of env_unset "Some db_unreachable"] f
  have c: "status_code (fst (route_test env_unset (Some db_unreachable))) = 200"
    and d: "map_of (projr (fst (route_test env_unset (Some db_unreachable)))) ''database'' =
      Some (VStr (warning_sign @ '' Connected but Error: connection refused''))"
    by auto
  from a b f c d show ?thesis by (intro conjI)
qed

subsection \<open>Appointment requests\<close>

lemma validate_rejects:
  "field_errors EmailStr body \<noteq> [] \<Longrightarrow>
   validate_AppointmentRequest EmailStr body = Inl (field_errors EmailStr body)"
  by (auto simp: validate_AppointmentRequest_def field_errors_def errors_of_def
           split: sum.splits)

lemma validate_accepts:
  assumes "validate_AppointmentRequest EmailStr body = Inr r"
  shows "required_str ''full_name'' body = Inr (full_name r)"
    and "optional_email EmailStr ''email'' body = Inr (email r)"
    and "required_str ''phone'' body = Inr (phone r)"
    and "optional_str ''preferred_date'' None body = Inr (preferred_date r)"
    and "optional_str ''preferred_time'' None body = Inr (preferred_time r)"
    and "optional_str ''service_type'' None body = Inr (service_type r)"
    and "optional_str ''message'' None body = Inr (message r)"
    and "optional_str ''source'' (Some ''website'') body = Inr (source r)"
  using assms
  by (auto simp: validate_AppointmentRequest_def split: sum.splits)

lemma required_str_Inr:
  "required_str k body = Inr s \<longleftrightarrow> map_of body k = Some (VStr s)"
  by (auto simp: required_str_def split: option.splits val.splits)

lemma required_str_missing: "map_of body k = None \<Longrightarrow> required_str k body = Inl (k, Missing)"
  by (simp add: required_str_def)

lemma optional_str_Inr:
  "optional_str k dflt body = Inr x \<longleftrightarrow>
     (map_of body k = None \<and> x = dflt) \<or>
     (map_of body k = Some VNone \<and> x = None) \<or>
     (\<exists>s. map_of body k = Some (VStr s) \<and> x = Some s)"
  by (auto simp: optional_str_def split: option.splits val.splits)

lemma optional_email_Inr:
  "optional_email EmailStr k body = Inr x \<longleftrightarrow>
     (map_of body k = None \<and> x = None) \<or>
     (map_of body k = Some VNone \<and> x = None) \<or>
     (\<exists>s a. map_of body k = Some (VStr s) \<and> EmailStr s = Some a \<and> x = Some a)"
  by (auto simp: optional_email_def split: option.splits val.splits)

lemma optional_email_malformed:
  "map_of body k = Some (VStr s) \<Longrightarrow> EmailStr s = None \<Longrightarrow>
   optional_email EmailStr k body = Inl (k, Value_error)"
  by (simp add: optional_email_def)

lemma field_errors_missing_phone:
  "map_of body ''phone'' = None \<Longrightarrow> field_errors EmailStr body \<noteq> []"
  by (simp add: field_errors_def required_str_missing errors_of_def)

lemma field_errors_missing_full_name:
  "map_of body ''full_name'' = None \<Longrightarrow> field_errors EmailStr body \<noteq> []"
  by (simp add: field_errors_def required_str_missing errors_of_def)

lemma field_errors_malformed_email:
  "map_of body ''email'' = Some (VStr s) \<Longrightarrow> EmailStr s = None \<Longrightarrow>
   field_errors EmailStr body \<noteq> []"
  by (simp add: field_errors_def optional_email_malformed errors_of_def)

lemma kept_required:
  "required_str k body = Inr s \<Longrightarrow> map_of body k = Some v \<Longrightarrow> VStr s = v"
  by (simp add: required_str_Inr)

lemma kept_optional:
  "optional_str k dflt body = Inr x \<Longrightarrow> map_of body k = Some v \<Longrightarrow> opt_str x = v"
  by (auto simp: optional_str_Inr opt_str_def)

lemma kept_email:
  "optional_email EmailStr k body = Inr x \<Longrightarrow> map_of body k = Some (VStr s) \<Longrightarrow>
   \<exists>a. EmailStr s = Some a \<and> opt_str x = VStr a"
  by (auto simp: optional_email_Inr opt_str_def)

lemma kept_email_null:
  "optional_email EmailStr k body = Inr x \<Longrightarrow> map_of body k = Some VNone \<Longrightarrow> opt_str x = VNone"
  by (auto simp: optional_email_Inr opt_str_def)

lemma digits_nonempty: "digits n \<noteq> []"
  by (subst digits.simps) simp

lemma create_appointment_no_faults:
  "faults d = [] \<Longrightarrow>
   create_appointment request (Some d) =
     (Inr [(''id'', VStr (digits (next_oid d))), (''success'', VBool True)],
      Some (put ''appointmentrequest'' (dump_AppointmentRequest request) d))"
  by (simp add: create_appointment_def or_500_def bind_io_def create_document_no_faults
        return_io_def)

lemma example_EmailStr_rejects: "example_EmailStr ''not-an-email'' = None"
  by (simp add: example_EmailStr_def)

lemma example_EmailStr_accepts: "example_EmailStr ''ann@example.com'' = Some ''ann@example.com''"
  by (simp add: example_EmailStr_def)

lemma validate_body_valid:
  "validate_AppointmentRequest example_EmailStr body_valid =
     Inr \<lparr>full_name = ''Ann Lee'', email = Some ''ann@example.com'', phone = ''555-0100'',
          preferred_date = None, preferred_time = None, service_type = None,
          message = Some ''Cleaning, please.'', source = Some ''website''\<rparr>"
  by (simp add: validate_AppointmentRequest_def required_str_def optional_str_def
        optional_email_def body_valid_def example_EmailStr_accepts)

lemma field_errors_body_no_phone:
  "field_errors example_EmailStr body_no_phone = [(''phone'', Missing)]"
  by (simp add: field_errors_def errors_of_def required_str_def optional_str_def
        optional_email_def body_no_phone_def example_EmailStr_accepts)

lemma field_errors_body_bad_email:
  "field_errors example_EmailStr body_bad_email = [(''email'', Value_error)]"
  by (simp add: field_errors_def errors_of_def required_str_def optional_str_def
        optional_email_def body_bad_email_def example_EmailStr_rejects)

lemma next_oid_db_empty: "next_oid db_empty = 0"
  by (simp add: db_empty_def)

text \<open>
  Claim C4. A body for \<^verbatim>\<open>POST /api/appointment\<close> that lacks \<^verbatim>\<open>phone\<close> or
  \<^verbatim>\<open>full_name\<close>, or whose \<^verbatim>\<open>email\<close> is a string that \<^verbatim>\<open>EmailStr\<close> refuses, or that breaks
  any other field constraint of the schema, is answered with status 422 and the list of
  its errors; the handle is returned untouched, so no database operation was made and no
  record inserted.
\<close>

theorem invalid_appointment_rejected:
  assumes "map_of body ''phone'' = None \<or> map_of body ''full_name'' = None \<or>
     (\<exists>s. map_of body ''email'' = Some (VStr s) \<and> EmailStr s = None) \<or>
     field_errors EmailStr body \<noteq> []"
  shows "\<exists>errs. errs \<noteq> [] \<and>
     route_appointment EmailStr body h = (Inl (RequestValidationError errs), h) \<and>
     status_code (fst (route_appointment EmailStr body h)) = 422"
proof -
  from assms have errs: "field_errors EmailStr body \<noteq> []"
    by (auto dest: field_errors_missing_phone field_errors_missing_full_name
          field_errors_malformed_email)
  then have "route_appointment EmailStr body h =
      (Inl (RequestValidationError (field_errors EmailStr body)), h)"
    by (simp add: route_appointment_def validate_rejects)
  with errs show ?thesis
    by (auto simp: status_code_def)
qed

theorem invalid_appointment_rejected_witness:
  "map_of body_no_phone ''phone'' = None \<and>
   route_appointment example_EmailStr body_no_phone (Some db_empty) =
     (Inl (RequestValidationError [(''phone'', Missing)]), Some db_empty) \<and>
   status_code (fst (route_appointment example_EmailStr body_no_phone (Some db_empty))) = 422 \<and>
   map_of body_bad_email ''email'' = Some (VStr ''not-an-email'') \<and>
   example_EmailStr ''not-an-email'' = None \<and>
   route_appointment example_EmailStr body_bad_email (Some db_empty) =
     (Inl (RequestValidationError [(''email'', Value_error)]), Some db_empty) \<and>
   status_code (fst (route_appointment example_EmailStr body_bad_email (Some db_empty))) = 422"
proof -
  have p: "map_of body_no_phone ''phone'' = None"
    by (simp add: body_no_phone_def)
  have m: "map_of body_bad_email ''email'' = Some (VStr ''not-an-email'')"
    by (simp add: body_bad_email_def)
  from invalid_appointment_rejected [of body_no_phone example_EmailStr "Some db_empty"] p
  have s1: "status_code (fst (route_appointment example_EmailStr body_no_phone (Some db_empty))) = 422"
    by blast
  from invalid_appointment_rejected [of body_bad_email example_EmailStr "Some db_empty"]
    m example_EmailStr_rejects
  have s2: "status_code (fst (route_appointment example_EmailStr body_bad_email (Some db_empty))) = 422"
    by blast
  have r1: "route_appointment example_EmailStr body_no_phone (Some db_empty) =
     (Inl (RequestValidationError [(''phone'', Missing)]), Some db_empty)"
    using validate_rejects [of example_EmailStr body_no_phone]
    by (simp add: route_appointment_def field_errors_body_no_phone)
  have r2: "route_appointment example_EmailStr body_bad_email (Some db_empty) =
     (Inl (RequestValidationError [(''email'', Value_error)]), Some db_empty)"
    using validate_rejects [of example_EmailStr body_bad_email]
    by (simp add: route_appointment_def field_errors_body_bad_email)
  from p r1 s1 m example_EmailStr_rejects r2 s2 show ?thesis
    by (intro conjI)
qed

lemma lowering_EmailStr_example:
  "lowering_EmailStr ''Ann@EXAMPLE.COM'' = Some ''Ann@example.com''"
  by (simp add: lowering_EmailStr_def lower_char_def)

lemma validate_body_upper_email:
  "validate_AppointmentRequest lowering_EmailStr body_upper_email =
     Inr \<lparr>full_name = ''Ann Lee'', email = Some ''Ann@example.com'', phone = ''555-0100'',
          preferred_date = None, preferred_time = None, service_type = None,
          message = None, source = Some ''website''\<rparr>"
  by (simp add: validate_AppointmentRequest_def required_str_def optional_str_def
        optional_email_def body_upper_email_def lowering_EmailStr_example)

text \<open>
  Claim C5, as amended. For a body the schema accepts, on a database whose operations do
  not fail, \<^verbatim>\<open>POST /api/appointment\<close> answers with status 200, a non-empty \<^verbatim>\<open>id\<close>
  string and \<^verbatim>\<open>success\<close> true, and the appointmentrequest collection gains one document:
  the fields of the validated request under the generated identifier. Every value the body
  gives for a field of the schema other than \<^verbatim>\<open>email\<close> is the value stored; the email
  address is stored in the form \<^verbatim>\<open>EmailStr\<close> returns for the submitted one.
\<close>

theorem valid_appointment_stored:
  assumes ok: "validate_AppointmentRequest EmailStr body = Inr request"
    and nf: "faults d = []"
  shows "\<exists>i d'.
      route_appointment EmailStr body (Some d) =
        (Inr [(''id'', VStr i), (''success'', VBool True)], Some d') \<and>
      i \<noteq> [] \<and>
      status_code (fst (route_appointment EmailStr body (Some d))) = 200 \<and>
      docs ''appointmentrequest'' d' =
        docs ''appointmentrequest'' d @
          [(''_id'', VObjectId (next_oid d)) # dump_AppointmentRequest request] \<and>
      (\<forall>k\<in>{''full_name'', ''phone'', ''preferred_date'', ''preferred_time'',
             ''service_type'', ''message'', ''source''}.
         \<forall>v. map_of body k = Some v \<longrightarrow>
             map_of (dump_AppointmentRequest request) k = Some v) \<and>
      (\<forall>s. map_of body ''email'' = Some (VStr s) \<longrightarrow>
         (\<exists>a. EmailStr s = Some a \<and>
              map_of (dump_AppointmentRequest request) ''email'' = Some (VStr a))) \<and>
      (map_of body ''email'' = Some VNone \<longrightarrow>
         map_of (dump_AppointmentRequest request) ''email'' = Some VNone)"
proof -
  let ?d' = "put ''appointmentrequest'' (dump_AppointmentRequest request) d"
  note fields = validate_accepts [OF ok]
  have run: "route_appointment EmailStr body (Some d) =
      (Inr [(''id'', VStr (digits (next_oid d))), (''success'', VBool True)], Some ?d')"
    using ok nf by (simp add: route_appointment_def create_appointment_no_faults)
  have st: "status_code (fst (route_appointment EmailStr body (Some d))) = 200"
    by (simp add: run status_code_def)
  have stored: "docs ''appointmentrequest'' ?d' =
        docs ''appointmentrequest'' d @
          [(''_id'', VObjectId (next_oid d)) # dump_AppointmentRequest request]"
    by (simp add: docs_put)
  have plain: "\<forall>k\<in>{''full_name'', ''phone'', ''preferred_date'', ''preferred_time'',
             ''service_type'', ''message'', ''source''}.
         \<forall>v. map_of body k = Some v \<longrightarrow>
             map_of (dump_AppointmentRequest request) k = Some v"
    using kept_required [OF fields(1)] kept_required [OF fields(3)]
      kept_optional [OF fields(4)] kept_optional [OF fields(5)] kept_optional [OF fields(6)]
      kept_optional [OF fields(7)] kept_optional [OF fields(8)]
    by (simp add: dump_AppointmentRequest_def)
  have mail: "\<forall>s. map_of body ''email'' = Some (VStr s) \<longrightarrow>
         (\<exists>a. EmailStr s = Some a \<and>
              map_of (dump_AppointmentRequest request) ''email'' = Some (VStr a))"
    using kept_email [OF fields(2)] by (simp add: dump_AppointmentRequest_def)
  have null: "map_of body ''email'' = Some VNone \<longrightarrow>
         map_of (dump_AppointmentRequest request) ''email'' = Some VNone"
    using kept_email_null [OF fields(2)] by (simp add: dump_AppointmentRequest_def)
  show ?thesis
    by (rule exI [of _ "digits (next_oid d)"], rule exI [of _ ?d'])
       (intro conjI run digits_nonempty st stored plain mail null)
qed

theorem valid_appointment_stored_witness:
  "faults db_empty = [] \<and>
   (\<exists>d'. route_appointment example_EmailStr body_valid (Some db_empty) =
       (Inr [(''id'', VStr ''0''), (''success'', VBool True)], Some d') \<and>
     docs ''appointmentrequest'' d' =
       [[(''_id'', VObjectId 0),
         (''full_name'', VStr ''Ann Lee''),
         (''email'', VStr ''ann@example.com''),
         (''phone'', VStr ''555-0100''),
         (''preferred_date'', VNone),
         (''preferred_time'', VNone),
         (''service_type'', VNone),
         (''message'', VStr ''Cleaning, please.''),
         (''source'', VStr ''website'')]])"
proof -
  from valid_appointment_stored [OF validate_body_valid faults_db_empty]
  obtain i d' where run: "route_appointment example_EmailStr body_valid (Some db_empty) =
        (Inr [(''id'', VStr i), (''success'', VBool True)], Some d')"
    and stored: "docs ''appointmentrequest'' d' =
        docs ''appointmentrequest'' db_empty @
          [(''_id'', VObjectId (next_oid db_empty)) #
           dump_AppointmentRequest
             \<lparr>full_name = ''Ann Lee'', email = Some ''ann@example.com'', phone = ''555-0100'',
              preferred_date = None, preferred_time = None, service_type = None,
              message = Some ''Cleaning, please.'', source = Some ''website''\<rparr>]"
    by blast
  have "i = ''0''"
    using run faults_db_empty
    by (simp add: route_appointment_def validate_body_valid create_appointment_no_faults
          db_empty_def)
  with run stored have "route_appointment example_EmailStr body_valid (Some db_empty) =
       (Inr [(''id'', VStr ''0''), (''success'', VBool True)], Some d') \<and>
     docs ''appointmentrequest'' d' =
       [[(''_id'', VObjectId 0),
         (''full_name'', VStr ''Ann Lee''),
         (''email'', VStr ''ann@example.com''),
         (''phone'', VStr ''555-0100''),
         (''preferred_date'', VNone),
         (''preferred_time'', VNone),
         (''service_type'', VNone),
         (''message'', VStr ''Cleaning, please.''),
         (''source'', VStr ''website'')]]"
    by (simp add: docs_db_empty dump_AppointmentRequest_def opt_str_def next_oid_db_empty)
  then show ?thesis
    using faults_db_empty by blast
qed

text \<open>
  Claim C5 as it is stated fails for the email address: with an \<^verbatim>\<open>EmailStr\<close> that
  returns the address in its normal form, the body is accepted, the response is a success,
  and the address stored is not the address submitted.
\<close>

theorem appointment_email_rewritten_counterexample:
  "map_of body_upper_email ''email'' = Some (VStr ''Ann@EXAMPLE.COM'') \<and>
   route_appointment lowering_EmailStr body_upper_email (Some db_empty) =
     (Inr [(''id'', VStr ''0''), (''success'', VBool True)], Some db_after_appointment) \<and>
   map_of (hd (docs ''appointmentrequest'' db_after_appointment)) ''email'' =
     Some (VStr ''Ann@example.com'') \<and>
   VStr ''Ann@example.com'' \<noteq> VStr ''Ann@EXAMPLE.COM''"
proof -
  have submitted: "map_of body_upper_email ''email'' = Some (VStr ''Ann@EXAMPLE.COM'')"
    by (simp add: body_upper_email_def)
  have after: "put ''appointmentrequest''
      (dump_AppointmentRequest
         \<lparr>full_name = ''Ann Lee'', email = Some ''Ann@example.com'', phone = ''555-0100'',
          preferred_date = None, preferred_time = None, service_type = None,
          message = None, source = Some ''website''\<rparr>) db_empty = db_after_appointment"
    by (simp add: put_def docs_def db_empty_def db_after_appointment_def
          dump_AppointmentRequest_def opt_str_def)
  have run: "route_appointment lowering_EmailStr body_upper_email (Some db_empty) =
     (Inr [(''id'', VStr ''0''), (''success'', VBool True)], Some db_after_appointment)"
    by (simp add: route_appointment_def validate_body_upper_email
          create_appointment_no_faults faults_db_empty next_oid_db_empty after)
  have stored: "map_of (hd (docs ''appointmentrequest'' db_after_appointment)) ''email'' =
     Some (VStr ''Ann@example.com'')"
    by (simp add: docs_def db_after_appointment_def)
  have differ: "VStr ''Ann@example.com'' \<noteq> VStr ''Ann@EXAMPLE.COM''"
    by simp
  from submitted run stored differ show ?thesis
    by (intro conjI)
qed

end
